theory Spec2Isabelle
  imports Main "HOL-Library.Sublist"
begin

section \<open>Values, exceptions and results\<close>

text \<open>
  The descriptor \<^verbatim>\<open>pyproject.toml\<close> is read by \<^verbatim>\<open>toml.load\<close> into nested Python
  dictionaries. A table is an association list of its entries (keys are unique in a
  TOML document, and lookup takes the first entry of a key); the other values are
  strings, integers, booleans, arrays and the scalars the code never inspects (floats,
  date-times), kept by their text.
\<close>

datatype toml =
    TStr string
  | TInt int
  | TBool bool
  | TOther string
  | TList "toml list"
  | TTable "(string \<times> toml) list"

type_synonym table = "(string \<times> toml) list"

text \<open>
  The exceptions that the code raises or lets through. \<^verbatim>\<open>ValueError\<close> and
  \<^verbatim>\<open>KeyError\<close> carry their message or key. \<open>Raised\<close> is any other exception of
  an operation of the environment, by its text.
\<close>

datatype error =
    ValueError string
  | KeyError string
  | TypeError
  | AttributeError
  | EnvironmentExecutionError int string
  | Raised string

text \<open>Sequencing of computations that may raise, without state.\<close>

definition and_then :: "error + 'a \<Rightarrow> ('a \<Rightarrow> error + 'b) \<Rightarrow> error + 'b" where
  "and_then r f = (case r of Inl e \<Rightarrow> Inl e | Inr a \<Rightarrow> f a)"

text \<open>The apostrophe, for the messages that quote a name.\<close>

definition apos :: string where
  "apos = [CHR 0x27]"

section \<open>Reading the configuration\<close>

text \<open>
  \<^verbatim>\<open>v[k]\<close> for a string key \<open>k\<close>: a dictionary raises \<^verbatim>\<open>KeyError\<close> on a key it
  does not have; every other value raises \<^verbatim>\<open>TypeError\<close> (a string or a list wants
  an integer index, a scalar is not subscriptable).
\<close>

fun getitem :: "toml \<Rightarrow> string \<Rightarrow> error + toml" where
  "getitem (TTable es) k = (case map_of es k of None \<Rightarrow> Inl (KeyError k) | Some v \<Rightarrow> Inr v)"
| "getitem _ k = Inl TypeError"

text \<open>\<^verbatim>\<open>v[k1][k2]...\<close>, left to right.\<close>

fun getpath :: "toml \<Rightarrow> string list \<Rightarrow> error + toml" where
  "getpath v [] = Inr v"
| "getpath v (k # ks) = and_then (getitem v k) (\<lambda>v'. getpath v' ks)"

text \<open>
  \<^verbatim>\<open>v.copy()\<close>: dictionaries and lists have the method, and the copy has the entries of
  the original; the other values raise \<^verbatim>\<open>AttributeError\<close>.
\<close>

fun copy_value :: "toml \<Rightarrow> error + toml" where
  "copy_value (TTable es) = Inr (TTable es)"
| "copy_value (TList xs) = Inr (TList xs)"
| "copy_value _ = Inl AttributeError"

text \<open>
  \<^verbatim>\<open>x in v\<close> for a string \<open>x\<close>: a key of a dictionary, an element of a list, a
  substring of a string; the scalars are not iterable.
\<close>

fun contains_str :: "string \<Rightarrow> toml \<Rightarrow> error + bool" where
  "contains_str x (TTable es) = Inr (x \<in> set (map fst es))"
| "contains_str x (TList xs) = Inr (TStr x \<in> set xs)"
| "contains_str x (TStr s) = Inr (sublist x s)"
| "contains_str x _ = Inl TypeError"

text \<open>
  What \<^verbatim>\<open>for step in v\<close> iterates over: the elements of a list, the keys of a
  dictionary, the characters of a string; the scalars are not iterable.
\<close>

fun iterate :: "toml \<Rightarrow> error + toml list" where
  "iterate (TList xs) = Inr xs"
| "iterate (TTable es) = Inr (map (\<lambda>e. TStr (fst e)) es)"
| "iterate (TStr s) = Inr (map (\<lambda>c. TStr [c]) s)"
| "iterate _ = Inl TypeError"

text \<open>
  A path of keys is missing from a value when walking it through tables reaches a table
  without the next key; \<open>missing_key\<close> is that key. A value on the way that is not a
  table is a different defect of the descriptor, and not a missing key.
\<close>

fun missing_key :: "toml \<Rightarrow> string list \<Rightarrow> string option" where
  "missing_key v [] = None"
| "missing_key (TTable es) (k # ks) =
     (case map_of es k of None \<Rightarrow> Some k | Some v \<Rightarrow> missing_key v ks)"
| "missing_key _ (k # ks) = None"

section \<open>Pipeline steps\<close>

text \<open>
  \<^verbatim>\<open>s.split(":")\<close>: the fields between the separators, one more than there are
  separators, so never an empty list; a field is empty where two separators meet or
  where the string starts or ends with one.
\<close>

fun split :: "char \<Rightarrow> string \<Rightarrow> string list" where
  "split c [] = [[]]"
| "split c (x # xs) =
     (if x = c then [] # split c xs
      else (case split c xs of [] \<Rightarrow> [[x]] | f # fs \<Rightarrow> (x # f) # fs))"

text \<open>\<^verbatim>\<open>":".join(fields)\<close>, the inverse the steps are written with.\<close>

fun join :: "char \<Rightarrow> string list \<Rightarrow> string" where
  "join c [] = []"
| "join c [f] = f"
| "join c (f # g # fs) = f @ c # join c (g # fs)"

text \<open>
  The parsing of one step in \<^verbatim>\<open>run\<close> of \<^verbatim>\<open>cli.py\<close>: unpacking into three names
  raises \<^verbatim>\<open>ValueError\<close> unless there are three fields, then unpacking into two does
  unless there are two, and then the step is reported.
\<close>

definition parse_error :: "string \<Rightarrow> error" where
  "parse_error step =
     ValueError (''Can'' @ apos @ ''t parse pipeline step '' @ apos @ step @ apos)"

definition parse_step :: "string \<Rightarrow> error + string \<times> string \<times> string option" where
  "parse_step step =
     (case split CHR '':'' step of
        [component, command, subcommand] \<Rightarrow> Inr (component, command, Some subcommand)
      | [component, command] \<Rightarrow> Inr (component, command, None)
      | _ \<Rightarrow> Inl (parse_error step))"

section \<open>Projects and the host they run on\<close>

text \<open>
  \<^verbatim>\<open>ProjectBase\<close> holds the absolute path and the loaded configuration
  (\<^verbatim>\<open>_config\<close>); \<^verbatim>\<open>Project\<close> adds the name read from the configuration. Its
  \<^verbatim>\<open>Environment\<close> is reached through the host below. A \<^verbatim>\<open>Pipeline\<close> has the
  fields of \<^verbatim>\<open>ProjectBase\<close> and no more.
\<close>

record ProjectBase =
  path :: string
  cfg :: table

record Project = ProjectBase +
  name :: toml

text \<open>
  What the code calls and does not define: \<^verbatim>\<open>os.path.abspath\<close>, the \<^verbatim>\<open>/\<close> of
  \<^verbatim>\<open>pathlib\<close>, opening and parsing the descriptor at a location (\<open>None\<close> when the
  file does not exist), and the five operations of the \<^verbatim>\<open>Environment\<close> of a project.
  They are parameters, over any state \<open>'s\<close> of the machine; each operation of the
  environment may change that state and may raise.
\<close>

record 's host =
  abspath :: "string \<Rightarrow> string"
  joinpath :: "string \<Rightarrow> string \<Rightarrow> string"
  read_toml :: "string \<Rightarrow> 's \<Rightarrow> table option"
  venv_exists :: "Project \<Rightarrow> 's \<Rightarrow> (error + bool) \<times> 's"
  venv_contains :: "Project \<Rightarrow> 's \<Rightarrow> (error + bool) \<times> 's"
  venv_create :: "Project \<Rightarrow> 's \<Rightarrow> (error + unit) \<times> 's"
  venv_install :: "Project \<Rightarrow> 's \<Rightarrow> (error + unit) \<times> 's"
  venv_run :: "Project \<Rightarrow> string list \<Rightarrow> 's \<Rightarrow> (error + string) \<times> 's"

text \<open>
  The calls made on the host are recorded in the order they are made: an attempt to read
  a descriptor, a call of an operation of the environment of the project at a path, and a
  line given to \<^verbatim>\<open>logging.info\<close>.
\<close>

datatype call = Exists | Contains | Create | Install | Run "string list"

datatype message =
    Installing toml string
  | Updating toml string
  | AlreadyInstalled toml string
  | Output "string option"

datatype event = Read string | Venv string call | Info message

record 's world =
  machine :: 's
  trace :: "event list"

type_synonym ('s, 'a) action = "'s world \<Rightarrow> (error + 'a) \<times> 's world"

definition ret :: "'a \<Rightarrow> ('s, 'a) action" where
  "ret a w = (Inr a, w)"

definition raise :: "error \<Rightarrow> ('s, 'a) action" where
  "raise e w = (Inl e, w)"

definition then_do :: "('s, 'a) action \<Rightarrow> ('a \<Rightarrow> ('s, 'b) action) \<Rightarrow> ('s, 'b) action" where
  "then_do m f w = (case m w of (Inl e, w') \<Rightarrow> (Inl e, w') | (Inr a, w') \<Rightarrow> f a w')"

definition emit :: "event \<Rightarrow> ('s, unit) action" where
  "emit ev w = (Inr (), w\<lparr>trace := trace w @ [ev]\<rparr>)"

definition on_host :: "event \<Rightarrow> ('s \<Rightarrow> (error + 'a) \<times> 's) \<Rightarrow> ('s, 'a) action" where
  "on_host ev f w =
     (case f (machine w) of (r, s') \<Rightarrow> (r, \<lparr>machine = s', trace = trace w @ [ev]\<rparr>))"

definition exists :: "'s host \<Rightarrow> Project \<Rightarrow> ('s, bool) action" where
  "exists H p = on_host (Venv (path p) Exists) (venv_exists H p)"

definition contains :: "'s host \<Rightarrow> Project \<Rightarrow> ('s, bool) action" where
  "contains H p = on_host (Venv (path p) Contains) (venv_contains H p)"

definition create :: "'s host \<Rightarrow> Project \<Rightarrow> ('s, unit) action" where
  "create H p = on_host (Venv (path p) Create) (venv_create H p)"

definition install :: "'s host \<Rightarrow> Project \<Rightarrow> ('s, unit) action" where
  "install H p = on_host (Venv (path p) Install) (venv_install H p)"

definition run_in_venv :: "'s host \<Rightarrow> Project \<Rightarrow> string list \<Rightarrow> ('s, string) action" where
  "run_in_venv H p args = on_host (Venv (path p) (Run args)) (venv_run H p args)"

subsection \<open>ProjectBase\<close>

text \<open>
  \<^verbatim>\<open>__post_init__\<close>: the path is made absolute and the descriptor beside it is read;
  a missing file is reported as a \<^verbatim>\<open>ValueError\<close> that names the class, the path and
  the location looked at.
\<close>

definition no_descriptor :: "string \<Rightarrow> string \<Rightarrow> string \<Rightarrow> error" where
  "no_descriptor cls p config_path =
     ValueError (cls @ '' '' @ p @ '' has no associated '' @ apos @ ''pyproject.toml'' @ apos
                 @ '' at location '' @ config_path)"

definition ProjectBase_init :: "'s host \<Rightarrow> string \<Rightarrow> string \<Rightarrow> ('s, ProjectBase) action" where
  "ProjectBase_init H cls given =
     (let p = abspath H given; config_path = joinpath H p ''pyproject.toml'' in
      then_do (emit (Read config_path)) (\<lambda>_ w.
        case read_toml H config_path (machine w) of
          None \<Rightarrow> raise (no_descriptor cls p config_path) w
        | Some c \<Rightarrow> ret \<lparr>path = p, cfg = c\<rparr> w))"

text \<open>
  The property \<^verbatim>\<open>config\<close> returns \<^verbatim>\<open>self._config.copy()\<close>. Where nothing is
  mutated, the copy of a value is that value; the sharing between the copy and the
  original is modelled in the section on the store.
\<close>

definition config :: "'a ProjectBase_scheme \<Rightarrow> table" where
  "config p = cfg p"

subsection \<open>Project\<close>

text \<open>
  \<^verbatim>\<open>__post_init__\<close> reads the name with three plain lookups on \<^verbatim>\<open>_config\<close>, whose
  exceptions are not caught; the constructor of the environment only records its
  project.
\<close>

definition Project_init :: "'s host \<Rightarrow> string \<Rightarrow> ('s, Project) action" where
  "Project_init H given =
     then_do (ProjectBase_init H ''Project'' given) (\<lambda>b.
       case getpath (TTable (cfg b)) [''tool'', ''poetry'', ''name''] of
         Inl e \<Rightarrow> raise e
       | Inr n \<Rightarrow> ret \<lparr>path = path b, cfg = cfg b, name = n\<rparr>)"

text \<open>\<^verbatim>\<open>pinto_config\<close>: only a \<^verbatim>\<open>KeyError\<close> is turned into the empty dictionary.\<close>

definition pinto_config :: "Project \<Rightarrow> error + toml" where
  "pinto_config p =
     (case and_then (getpath (TTable (config p)) [''tool'', ''pinto'']) copy_value of
        Inl (KeyError k) \<Rightarrow> Inr (TTable [])
      | r \<Rightarrow> r)"

text \<open>
  \<^verbatim>\<open>install\<close>: the environment is created when it does not exist; then the project is
  installed when the environment does not contain it, installed again when \<open>force\<close> is
  set, and left alone otherwise.
\<close>

definition Project_install :: "'s host \<Rightarrow> Project \<Rightarrow> bool \<Rightarrow> ('s, unit) action" where
  "Project_install H p force =
     then_do (exists H p) (\<lambda>ex.
     then_do (if \<not> ex then create H p else ret ()) (\<lambda>_.
     then_do (contains H p) (\<lambda>c.
       if \<not> c then
         then_do (emit (Info (Installing (name p) (path p)))) (\<lambda>_. install H p)
       else if force then
         then_do (emit (Info (Updating (name p) (path p)))) (\<lambda>_. install H p)
       else emit (Info (AlreadyInstalled (name p) (path p))))))"

text \<open>
  \<^verbatim>\<open>run\<close>: \<^verbatim>\<open>not exists() or not contains(self)\<close> does not ask \<^verbatim>\<open>contains\<close> when
  the environment does not exist; \<^verbatim>\<open>install()\<close> is called without \<open>force\<close>; the
  result is the result of the environment's \<^verbatim>\<open>run\<close>.
\<close>

definition Project_run :: "'s host \<Rightarrow> Project \<Rightarrow> string list \<Rightarrow> ('s, string) action" where
  "Project_run H p args =
     then_do (exists H p) (\<lambda>ex.
     then_do (if \<not> ex then ret True
              else then_do (contains H p) (\<lambda>c. ret (\<not> c))) (\<lambda>needed.
     then_do (if needed then Project_install H p False else ret ()) (\<lambda>_.
       run_in_venv H p args)))"

subsection \<open>Pipeline\<close>

definition steps :: "ProjectBase \<Rightarrow> error + toml" where
  "steps pl = getpath (TTable (config pl)) [''tool'', ''pinto'', ''steps'']"

definition typeo_config :: "ProjectBase \<Rightarrow> error + toml" where
  "typeo_config pl = getpath (TTable (config pl)) [''tool'', ''typeo'']"

definition no_steps :: "string \<Rightarrow> error" where
  "no_steps config_path =
     ValueError (''Config file '' @ config_path @ '' has no '' @ apos @ ''[tool.pinto]'' @ apos
                 @ '' table or '' @ apos @ ''steps'' @ apos @ '' key in it.'')"

definition no_typeo :: "string \<Rightarrow> error" where
  "no_typeo config_path =
     ValueError (''Config file '' @ config_path @ '' has no '' @ apos @ ''[tool.typeo]'' @ apos
                 @ '' table necessary to run projects.'')"

text \<open>
  \<^verbatim>\<open>__post_init__\<close>: both properties are read once; a \<^verbatim>\<open>KeyError\<close> of the first is
  reported before the second is read, and any other exception passes through.
\<close>

definition Pipeline_init :: "'s host \<Rightarrow> string \<Rightarrow> ('s, ProjectBase) action" where
  "Pipeline_init H given =
     then_do (ProjectBase_init H ''Pipeline'' given) (\<lambda>pl.
       let config_path = joinpath H (path pl) ''pyproject.toml'' in
       case steps pl of
         Inl (KeyError k) \<Rightarrow> raise (no_steps config_path)
       | Inl e \<Rightarrow> raise e
       | Inr _ \<Rightarrow>
           (case typeo_config pl of
              Inl (KeyError k) \<Rightarrow> raise (no_typeo config_path)
            | Inl e \<Rightarrow> raise e
            | Inr _ \<Rightarrow> ret pl))"

definition create_project :: "'s host \<Rightarrow> ProjectBase \<Rightarrow> string \<Rightarrow> ('s, Project) action" where
  "create_project H pl component = Project_init H (joinpath H (path pl) component)"

text \<open>
  The argument that \<^verbatim>\<open>run_step\<close> builds in \<^verbatim>\<open>typeo_arg\<close>. The \<^verbatim>\<open>try\<close> holds
  the test \<^verbatim>\<open>command in self.typeo_config["scripts"]\<close> and the first append; its
  \<^verbatim>\<open>except KeyError\<close> runs when a lookup of the test fails, its \<^verbatim>\<open>else\<close> whenever
  the test raised nothing, whatever the test answered.
\<close>

definition typeo_arg :: "ProjectBase \<Rightarrow> string \<Rightarrow> string option \<Rightarrow> error + string" where
  "typeo_arg pl command subcommand =
     (case and_then (and_then (typeo_config pl) (\<lambda>t. getitem t ''scripts''))
                    (contains_str command) of
        Inl (KeyError k) \<Rightarrow>
          Inr (path pl @ (case subcommand of None \<Rightarrow> [] | Some sub \<Rightarrow> ''::'' @ sub))
      | Inl e \<Rightarrow> Inl e
      | Inr registered \<Rightarrow>
          Inr ((if registered then path pl @ '':'' @ command else path pl)
               @ (case subcommand of None \<Rightarrow> [] | Some sub \<Rightarrow> '':'' @ sub)))"

text \<open>
  \<^verbatim>\<open>run_step\<close> ends with the call \<^verbatim>\<open>project.run(command, "--typeo", typeo_arg)\<close>
  as a statement: the method has no \<^verbatim>\<open>return\<close>, so its value is Python's \<^verbatim>\<open>None\<close>,
  here \<open>None\<close> of \<open>string option\<close>.
\<close>

definition run_step ::
  "'s host \<Rightarrow> ProjectBase \<Rightarrow> Project \<Rightarrow> string \<Rightarrow> string option \<Rightarrow> ('s, string option) action" where
  "run_step H pl project command subcommand =
     (case typeo_arg pl command subcommand of
        Inl e \<Rightarrow> raise e
      | Inr arg \<Rightarrow>
          then_do (Project_run H project [command, ''--typeo'', arg]) (\<lambda>out. ret None))"

subsection \<open>Running a pipeline\<close>

text \<open>
  The body of the loop in \<^verbatim>\<open>run\<close> of \<^verbatim>\<open>cli.py\<close> for one element of the steps. An
  element that is not a string has no \<^verbatim>\<open>split\<close>.
\<close>

definition run_one :: "'s host \<Rightarrow> ProjectBase \<Rightarrow> toml \<Rightarrow> ('s, unit) action" where
  "run_one H pl step =
     (case step of
        TStr s \<Rightarrow>
          (case parse_step s of
             Inl e \<Rightarrow> raise e
           | Inr (component, command, subcommand) \<Rightarrow>
               then_do (create_project H pl component) (\<lambda>project.
               then_do (run_step H pl project command subcommand) (\<lambda>stdout.
                 emit (Info (Output stdout)))))
      | _ \<Rightarrow> raise AttributeError)"

fun run_steps :: "'s host \<Rightarrow> ProjectBase \<Rightarrow> toml list \<Rightarrow> ('s, unit) action" where
  "run_steps H pl [] w = (Inr (), w)"
| "run_steps H pl (step # rest) w =
     (case run_one H pl step w of
        (Inl e, w') \<Rightarrow> (Inl e, w')
      | (Inr u, w') \<Rightarrow> run_steps H pl rest w')"

definition run :: "'s host \<Rightarrow> string \<Rightarrow> ('s, unit) action" where
  "run H given =
     then_do (Pipeline_init H given) (\<lambda>pl.
       case and_then (steps pl) iterate of
         Inl e \<Rightarrow> raise e
       | Inr sts \<Rightarrow> run_steps H pl sts)"

section \<open>The store: what a copy shares\<close>

text \<open>
  A Python dictionary or list is an object in a store, and a value is a scalar or a
  reference to an object. An address is a position in the store, and a new object is put
  at its end. The reference a running program holds always has its object; the lookups
  below answer \<open>Raised\<close> for an address outside the store only to be total.
\<close>

type_synonym addr = nat

datatype pyval = VStr string | VInt int | VBool bool | VOther string | VRef addr

datatype pyobj = Dict "(string \<times> pyval) list" | List "pyval list"

type_synonym store = "pyobj list"

definition allocate :: "pyobj \<Rightarrow> store \<Rightarrow> addr \<times> store" where
  "allocate ob h = (length h, h @ [ob])"

text \<open>
  \<^verbatim>\<open>x.copy()\<close> on a dictionary or a list makes a new object with the entries of the
  old one: an entry that is a reference is copied as that reference.
\<close>

definition copy_at :: "addr \<Rightarrow> store \<Rightarrow> (error + addr) \<times> store" where
  "copy_at a h =
     (if a < length h then (case allocate (h ! a) h of (a', h') \<Rightarrow> (Inr a', h'))
      else (Inl (Raised ''no object''), h))"

text \<open>\<^verbatim>\<open>v[k]\<close>, \<^verbatim>\<open>d[k] = v\<close> and \<^verbatim>\<open>del d[k]\<close> for a string key.\<close>

definition getitem_at :: "store \<Rightarrow> pyval \<Rightarrow> string \<Rightarrow> error + pyval" where
  "getitem_at h v k =
     (case v of
        VRef a \<Rightarrow>
          (if a < length h then
             (case h ! a of
                Dict es \<Rightarrow> (case map_of es k of None \<Rightarrow> Inl (KeyError k) | Some x \<Rightarrow> Inr x)
              | List xs \<Rightarrow> Inl TypeError)
           else Inl (Raised ''no object''))
      | _ \<Rightarrow> Inl TypeError)"

fun getpath_at :: "store \<Rightarrow> pyval \<Rightarrow> string list \<Rightarrow> error + pyval" where
  "getpath_at h v [] = Inr v"
| "getpath_at h v (k # ks) = and_then (getitem_at h v k) (\<lambda>v'. getpath_at h v' ks)"

fun assign :: "string \<Rightarrow> pyval \<Rightarrow> (string \<times> pyval) list \<Rightarrow> (string \<times> pyval) list" where
  "assign k v [] = [(k, v)]"
| "assign k v ((k', v') # es) = (if k' = k then (k, v) # es else (k', v') # assign k v es)"

definition setitem_at :: "pyval \<Rightarrow> string \<Rightarrow> pyval \<Rightarrow> store \<Rightarrow> (error + unit) \<times> store" where
  "setitem_at d k v h =
     (case d of
        VRef a \<Rightarrow>
          (if a < length h then
             (case h ! a of
                Dict es \<Rightarrow> (Inr (), h[a := Dict (assign k v es)])
              | List xs \<Rightarrow> (Inl TypeError, h))
           else (Inl (Raised ''no object''), h))
      | _ \<Rightarrow> (Inl TypeError, h))"

definition delitem_at :: "pyval \<Rightarrow> string \<Rightarrow> store \<Rightarrow> (error + unit) \<times> store" where
  "delitem_at d k h =
     (case d of
        VRef a \<Rightarrow>
          (if a < length h then
             (case h ! a of
                Dict es \<Rightarrow>
                  (if k \<in> set (map fst es)
                   then (Inr (), h[a := Dict (filter (\<lambda>e. fst e \<noteq> k) es)])
                   else (Inl (KeyError k), h))
              | List xs \<Rightarrow> (Inl TypeError, h))
           else (Inl (Raised ''no object''), h))
      | _ \<Rightarrow> (Inl TypeError, h))"

text \<open>
  The property \<^verbatim>\<open>config\<close> of a project whose \<^verbatim>\<open>_config\<close> is the object at
  \<open>c\<close>: \<^verbatim>\<open>self._config.copy()\<close>.
\<close>

definition config_at :: "addr \<Rightarrow> store \<Rightarrow> (error + addr) \<times> store" where
  "config_at c h = copy_at c h"

text \<open>
  What a caller can do with the mapping it was given: the statements
  \<^verbatim>\<open>project.config[k1]...[kn][k] = v\<close> and \<^verbatim>\<open>del project.config[k1]...[kn][k]\<close>.
  With no \<open>k1 ... kn\<close> the statement changes the returned mapping itself, and with some
  it changes a table below it.
\<close>

definition assign_in_config ::
  "addr \<Rightarrow> string list \<Rightarrow> string \<Rightarrow> pyval \<Rightarrow> store \<Rightarrow> (error + unit) \<times> store" where
  "assign_in_config c ks k v h =
     (case config_at c h of
        (Inl e, h1) \<Rightarrow> (Inl e, h1)
      | (Inr c', h1) \<Rightarrow>
          (case getpath_at h1 (VRef c') ks of
             Inl e \<Rightarrow> (Inl e, h1)
           | Inr d \<Rightarrow> setitem_at d k v h1))"

definition delete_in_config ::
  "addr \<Rightarrow> string list \<Rightarrow> string \<Rightarrow> store \<Rightarrow> (error + unit) \<times> store" where
  "delete_in_config c ks k h =
     (case config_at c h of
        (Inl e, h1) \<Rightarrow> (Inl e, h1)
      | (Inr c', h1) \<Rightarrow>
          (case getpath_at h1 (VRef c') ks of
             Inl e \<Rightarrow> (Inl e, h1)
           | Inr d \<Rightarrow> delitem_at d k h1))"

section \<open>A host to run on\<close>

text \<open>
  Modelled from the spec: the class \<^verbatim>\<open>Environment\<close> of \<^verbatim>\<open>pinto.env\<close> is not among
  the sources. The environment of a project is in one of the three states of its
  lifecycle; \<^verbatim>\<open>exists\<close> and \<^verbatim>\<open>contains\<close> only look at the state, \<^verbatim>\<open>create\<close>
  provisions an empty environment, \<^verbatim>\<open>install\<close> installs the project into an
  environment that exists, and \<^verbatim>\<open>run\<close> returns the captured output of a process that
  exits with zero and raises \<^verbatim>\<open>EnvironmentExecutionError\<close> with the exit code and the
  captured error output otherwise. The machine holds the descriptors by location, the
  state of the environment of each project by its path, and what each command exits
  with and prints.
\<close>

datatype env_state = Absent | ExistsNotInstalled | ExistsInstalled

record machine_state =
  descriptors :: "(string \<times> table) list"
  venvs :: "(string \<times> env_state) list"
  programs :: "(string \<times> int \<times> string \<times> string) list"

definition venv_state :: "Project \<Rightarrow> machine_state \<Rightarrow> env_state" where
  "venv_state p s = (case map_of (venvs s) (path p) of None \<Rightarrow> Absent | Some st \<Rightarrow> st)"

definition set_venv :: "Project \<Rightarrow> env_state \<Rightarrow> machine_state \<Rightarrow> machine_state" where
  "set_venv p st s = s\<lparr>venvs := (path p, st) # venvs s\<rparr>"

definition spec_run :: "Project \<Rightarrow> string list \<Rightarrow> machine_state \<Rightarrow> (error + string) \<times> machine_state" where
  "spec_run p args s =
     (case args of
        [] \<Rightarrow> (Inl (Raised ''no command''), s)
      | cmd # rest \<Rightarrow>
          (case map_of (programs s) cmd of
             None \<Rightarrow> (Inl (EnvironmentExecutionError 127 ''command not found''), s)
           | Some (code, out, err) \<Rightarrow>
               if code = 0 then (Inr out, s)
               else (Inl (EnvironmentExecutionError code err), s)))"

definition spec_host :: "machine_state host" where
  "spec_host =
     \<lparr>abspath = (\<lambda>p. p),
      joinpath = (\<lambda>p n. p @ ''/'' @ n),
      read_toml = (\<lambda>loc s. map_of (descriptors s) loc),
      venv_exists = (\<lambda>p s. (Inr (venv_state p s \<noteq> Absent), s)),
      venv_contains = (\<lambda>p s. (Inr (venv_state p s = ExistsInstalled), s)),
      venv_create = (\<lambda>p s. (Inr (), set_venv p ExistsNotInstalled s)),
      venv_install = (\<lambda>p s.
        if venv_state p s = Absent then (Inl (Raised ''no environment''), s)
        else (Inr (), set_venv p ExistsInstalled s)),
      venv_run = spec_run\<rparr>"

text \<open>The number of calls of \<^verbatim>\<open>install\<close> on the environment of a project in a trace.\<close>

definition installs :: "Project \<Rightarrow> event list \<Rightarrow> nat" where
  "installs p evs = count_list evs (Venv (path p) Install)"

section \<open>A pipeline of two projects\<close>

text \<open>
  The pipeline at \<^verbatim>\<open>/p\<close> has the steps \<^verbatim>\<open>a:build\<close> and \<^verbatim>\<open>b:test:unit\<close> and the
  one registered script \<^verbatim>\<open>train\<close>; its projects are at \<^verbatim>\<open>/p/a\<close> and \<^verbatim>\<open>/p/b\<close>.
  The descriptor at \<^verbatim>\<open>/q\<close> has steps and no \<^verbatim>\<open>[tool.typeo]\<close>, and the one at
  \<^verbatim>\<open>/r\<close> has a \<^verbatim>\<open>[tool.pinto]\<close> without steps and no \<^verbatim>\<open>[tool.poetry]\<close>. On the
  machine no environment exists yet, \<^verbatim>\<open>build\<close> exits with 1 and \<^verbatim>\<open>test\<close> with 0.
\<close>

definition config_a :: table where
  "config_a = [(''tool'', TTable [(''poetry'', TTable [(''name'', TStr ''a'')])])]"

definition config_b :: table where
  "config_b = [(''tool'', TTable [(''poetry'', TTable [(''name'', TStr ''b'')])])]"

definition config_p :: table where
  "config_p =
     [(''tool'', TTable
        [(''pinto'', TTable [(''steps'', TList [TStr ''a:build'', TStr ''b:test:unit''])]),
         (''typeo'', TTable [(''scripts'', TTable [(''train'', TTable [])])])])]"

definition config_q :: table where
  "config_q = [(''tool'', TTable [(''pinto'', TTable [(''steps'', TList [])])])]"

definition config_r :: table where
  "config_r = [(''tool'', TTable [(''pinto'', TTable [])])]"

definition project_a :: Project where
  "project_a = \<lparr>path = ''/p/a'', cfg = config_a, name = TStr ''a''\<rparr>"

definition pipeline_p :: ProjectBase where
  "pipeline_p = \<lparr>path = ''/p'', cfg = config_p\<rparr>"

definition machine0 :: machine_state where
  "machine0 =
     \<lparr>descriptors =
        [(''/p/pyproject.toml'', config_p),
         (''/p/a/pyproject.toml'', config_a),
         (''/p/b/pyproject.toml'', config_b),
         (''/q/pyproject.toml'', config_q),
         (''/r/pyproject.toml'', config_r)],
      venvs = [],
      programs = [(''build'', 1, ''built'', ''boom''), (''test'', 0, ''passed'', [])]\<rparr>"

definition world0 :: "machine_state world" where
  "world0 = \<lparr>machine = machine0, trace = []\<rparr>"

text \<open>
  A pipeline at the same path whose \<^verbatim>\<open>[tool.typeo]\<close> has no \<^verbatim>\<open>scripts\<close> table.
\<close>

definition pipeline_without_scripts :: ProjectBase where
  "pipeline_without_scripts =
     \<lparr>path = ''/p'',
      cfg = [(''tool'', TTable
               [(''pinto'', TTable [(''steps'', TList [TStr ''a:build''])]),
                (''typeo'', TTable [])])]\<rparr>"

text \<open>The same machine once the environment of \<^verbatim>\<open>/p/a\<close> holds its project.\<close>

definition world_a :: "machine_state world" where
  "world_a = \<lparr>machine = set_venv project_a ExistsInstalled machine0, trace = []\<rparr>"

text \<open>
  A store with the configuration of a project: \<^verbatim>\<open>_config\<close> is the object at 0, its
  \<^verbatim>\<open>tool\<close> table the object at 1 and the \<^verbatim>\<open>poetry\<close> table of that the object at 2.
\<close>

definition store0 :: store where
  "store0 =
     [Dict [(''tool'', VRef 1)],
      Dict [(''poetry'', VRef 2)],
      Dict [(''name'', VStr ''a'')]]"

text \<open>
  The machine where \<^verbatim>\<open>build\<close> exits with 0 too, and the worlds that a run of the
  pipeline goes through on it: after the construction of the pipeline, after the first
  step and after the second.
\<close>

definition machine1 :: machine_state where
  "machine1 =
     machine0\<lparr>programs := [(''build'', 0, ''built'', []), (''test'', 0, ''passed'', [])]\<rparr>"

definition world1 :: "machine_state world" where
  "world1 = \<lparr>machine = machine1, trace = []\<rparr>"

definition project_b :: Project where
  "project_b = \<lparr>path = ''/p/b'', cfg = config_b, name = TStr ''b''\<rparr>"

definition after_init :: "machine_state world" where
  "after_init = \<lparr>machine = machine1, trace = [Read ''/p/pyproject.toml'']\<rparr>"

definition after_a :: "machine_state world" where
  "after_a =
     \<lparr>machine = set_venv project_a ExistsInstalled
                  (set_venv project_a ExistsNotInstalled machine1),
      trace = [Read ''/p/pyproject.toml'', Read ''/p/a/pyproject.toml'',
        Venv ''/p/a'' Exists, Venv ''/p/a'' Exists, Venv ''/p/a'' Create,
        Venv ''/p/a'' Contains, Info (Installing (TStr ''a'') ''/p/a''),
        Venv ''/p/a'' Install,
        Venv ''/p/a'' (Run [''build'', ''--typeo'', ''/p'']),
        Info (Output None)]\<rparr>"

definition after_b :: "machine_state world" where
  "after_b =
     \<lparr>machine = set_venv project_b ExistsInstalled
                  (set_venv project_b ExistsNotInstalled (machine after_a)),
      trace = trace after_a @
       [Read ''/p/b/pyproject.toml'',
        Venv ''/p/b'' Exists, Venv ''/p/b'' Exists, Venv ''/p/b'' Create,
        Venv ''/p/b'' Contains, Info (Installing (TStr ''b'') ''/p/b''),
        Venv ''/p/b'' Install,
        Venv ''/p/b'' (Run [''test'', ''--typeo'', ''/p:unit'']),
        Info (Output None)]\<rparr>"

text \<open>The first machine once the environment of \<^verbatim>\<open>/p/a\<close> is created and empty.\<close>

definition world_created :: "machine_state world" where
  "world_created = \<lparr>machine = set_venv project_a ExistsNotInstalled machine0, trace = []\<rparr>"

text \<open>
  Descriptors where a value on a path the code reads is not a table: \<^verbatim>\<open>pinto\<close> is a
  string at \<^verbatim>\<open>/s\<close> and, beside a name, at \<^verbatim>\<open>/t\<close>; \<^verbatim>\<open>poetry\<close> is a string at
  \<^verbatim>\<open>/u\<close>; at \<^verbatim>\<open>/v\<close> the steps are a number and \<^verbatim>\<open>typeo\<close> is a string.
\<close>

definition config_s :: table where
  "config_s = [(''tool'', TTable [(''pinto'', TStr ''x'')])]"

definition config_t :: table where
  "config_t =
     [(''tool'', TTable [(''poetry'', TTable [(''name'', TStr ''t'')]), (''pinto'', TStr ''x'')])]"

definition config_u :: table where
  "config_u = [(''tool'', TTable [(''poetry'', TStr ''x'')])]"

definition config_v :: table where
  "config_v =
     [(''tool'', TTable [(''pinto'', TTable [(''steps'', TInt 5)]), (''typeo'', TStr ''x'')])]"

definition project_t :: Project where
  "project_t = \<lparr>path = ''/t'', cfg = config_t, name = TStr ''t''\<rparr>"

definition world_odd :: "machine_state world" where
  "world_odd =
     \<lparr>machine =
        \<lparr>descriptors =
           [(''/s/pyproject.toml'', config_s),
            (''/t/pyproject.toml'', config_t),
            (''/u/pyproject.toml'', config_u),
            (''/v/pyproject.toml'', config_v)],
         venvs = [],
         programs = []\<rparr>,
      trace = []\<rparr>"

text \<open>
  A host that counts: it does what the host \<open>H\<close> does, on the state of \<open>H\<close> paired with
  a counter that the operation \<^verbatim>\<open>install\<close> of an environment, and no other, moves
  up by one.
\<close>

definition counting :: "'s host \<Rightarrow> ('s \<times> nat) host" where
  "counting H =
     \<lparr>abspath = abspath H,
      joinpath = joinpath H,
      read_toml = (\<lambda>loc sn. read_toml H loc (fst sn)),
      venv_exists = (\<lambda>p sn. case venv_exists H p (fst sn) of (r, s') \<Rightarrow> (r, (s', snd sn))),
      venv_contains = (\<lambda>p sn. case venv_contains H p (fst sn) of (r, s') \<Rightarrow> (r, (s', snd sn))),
      venv_create = (\<lambda>p sn. case venv_create H p (fst sn) of (r, s') \<Rightarrow> (r, (s', snd sn))),
      venv_install = (\<lambda>p sn.
        case venv_install H p (fst sn) of (r, s') \<Rightarrow> (r, (s', Suc (snd sn)))),
      venv_run = (\<lambda>p args sn.
        case venv_run H p args (fst sn) of (r, s') \<Rightarrow> (r, (s', snd sn)))\<rparr>"

section \<open>Properties of step parsing\<close>

lemma split_not_Nil: "split c s \<noteq> []"
  by (induction s) (auto split: list.splits)

lemma length_split: "length (split c s) = Suc (length (filter (\<lambda>x. x = c) s))"
  by (induction s) (auto split: list.splits simp: split_not_Nil)

lemma split_no_sep: "c \<notin> set s \<Longrightarrow> split c s = [s]"
  by (induction s) auto

lemma split_append_sep:
  "c \<notin> set f \<Longrightarrow> split c (f @ c # rest) = f # split c rest"
  by (induction f) (auto split: list.splits)

lemma split_two:
  "c \<notin> set f \<Longrightarrow> c \<notin> set g \<Longrightarrow> split c (f @ c # g) = [f, g]"
  by (simp add: split_append_sep split_no_sep)

lemma split_three:
  "c \<notin> set f \<Longrightarrow> c \<notin> set g \<Longrightarrow> c \<notin> set h \<Longrightarrow> split c (f @ c # g @ c # h) = [f, g, h]"
  by (simp add: split_append_sep split_no_sep)

lemma parse_step_by_length:
  "parse_step step =
     (if length (split CHR '':'' step) = 2
      then Inr (split CHR '':'' step ! 0, split CHR '':'' step ! 1, None)
      else if length (split CHR '':'' step) = 3
      then Inr (split CHR '':'' step ! 0, split CHR '':'' step ! 1,
                Some (split CHR '':'' step ! 2))
      else Inl (parse_error step))"
proof -
  obtain fs where fs: "split CHR '':'' step = fs" by blast
  show ?thesis
    unfolding parse_step_def fs
    by (cases fs rule: list.exhaust; simp split: list.splits)
qed

lemma parse_error_names_step: "\<exists>pre post. parse_error step = ValueError (pre @ step @ post)"
  unfolding parse_error_def by (metis append.assoc)

text \<open>
  C4, as amended. A step is accepted exactly when splitting it on the colon gives two or
  three fields, whether or not a field is empty, and the fields are returned as they
  are; with any other number of fields (one, or four and more: a split never gives
  none) parsing raises the \<^verbatim>\<open>ValueError\<close> whose message holds the raw step. Fields
  without a colon that were joined by colons are recovered.
\<close>

theorem parse_step_field_count:
  "(length (split CHR '':'' step) = 2 \<longrightarrow>
      parse_step step = Inr (split CHR '':'' step ! 0, split CHR '':'' step ! 1, None))
   \<and> (length (split CHR '':'' step) = 3 \<longrightarrow>
      parse_step step = Inr (split CHR '':'' step ! 0, split CHR '':'' step ! 1,
                             Some (split CHR '':'' step ! 2)))
   \<and> (length (split CHR '':'' step) \<noteq> 2 \<and> length (split CHR '':'' step) \<noteq> 3 \<longrightarrow>
      parse_step step = Inl (parse_error step)
      \<and> (\<exists>pre post. parse_error step = ValueError (pre @ step @ post)))
   \<and> (CHR '':'' \<notin> set a \<and> CHR '':'' \<notin> set b \<longrightarrow>
      parse_step (join CHR '':'' [a, b]) = Inr (a, b, None))
   \<and> (CHR '':'' \<notin> set a \<and> CHR '':'' \<notin> set b \<and> CHR '':'' \<notin> set c \<longrightarrow>
      parse_step (join CHR '':'' [a, b, c]) = Inr (a, b, Some c))"
proof (intro conjI impI)
  show "parse_step (join CHR '':'' [a, b]) = Inr (a, b, None)"
    if "CHR '':'' \<notin> set a \<and> CHR '':'' \<notin> set b"
    using that by (simp add: parse_step_def split_two)
  show "parse_step (join CHR '':'' [a, b, c]) = Inr (a, b, Some c)"
    if "CHR '':'' \<notin> set a \<and> CHR '':'' \<notin> set b \<and> CHR '':'' \<notin> set c"
    using that by (simp add: parse_step_def split_three)
qed (simp_all add: parse_step_by_length parse_error_names_step)

theorem parse_step_field_count_witness:
  "parse_step ''a:build'' = Inr (''a'', ''build'', None)
   \<and> parse_step ''b:test:unit'' = Inr (''b'', ''test'', Some ''unit'')
   \<and> parse_step ''build'' = Inl (parse_error ''build'')
   \<and> parse_step ''a:b:c:d'' = Inl (parse_error ''a:b:c:d'')
   \<and> parse_step (join CHR '':'' [''a'', ''build'']) = Inr (''a'', ''build'', None)
   \<and> parse_step (join CHR '':'' [''b'', ''test'', ''unit'']) = Inr (''b'', ''test'', Some ''unit'')"
  using parse_step_field_count [of "''a:build''" "''a''" "''build''" "''unit''"]
        parse_step_field_count [of "''b:test:unit''" "''b''" "''test''" "''unit''"]
        parse_step_field_count [of "''build''" "''a''" "''build''" "''unit''"]
        parse_step_field_count [of "''a:b:c:d''" "''a''" "''build''" "''unit''"]
  by simp

text \<open>
  C4, as stated, fails: the step \<^verbatim>\<open>a:\<close> has an empty second field, and it is accepted
  with the empty command.
\<close>

theorem parse_step_empty_field_accepted:
  "parse_step ''a:'' = Inr (''a'', [], None) \<and> [] \<in> set (split CHR '':'' ''a:'')"
  by (simp add: parse_step_def)

section \<open>Properties of installing and running\<close>

lemmas action_defs = ret_def raise_def then_do_def emit_def on_host_def
  exists_def contains_def create_def install_def run_in_venv_def

lemmas demo_defs = config_a_def config_b_def config_p_def config_q_def config_r_def
  project_a_def pipeline_p_def pipeline_without_scripts_def machine0_def world0_def world_a_def
  spec_host_def spec_run_def venv_state_def set_venv_def

text \<open>
  The calls of the environment's \<^verbatim>\<open>install\<close> counted on the machine: on the counting
  host one call of \<^verbatim>\<open>Project.install\<close> has the result, the state and the trace that it
  has on the host itself, and moves the counter up by the number of \<^verbatim>\<open>install\<close>
  events it adds to the trace, which is at most one.
\<close>

lemma count_installs:
  "\<exists>evs. Project_install (counting H) p force \<lparr>machine = (s, n), trace = t\<rparr> =
           (fst (Project_install H p force \<lparr>machine = s, trace = t\<rparr>),
            \<lparr>machine = (machine (snd (Project_install H p force \<lparr>machine = s, trace = t\<rparr>)),
                        n + installs p evs),
             trace = t @ evs\<rparr>)
         \<and> trace (snd (Project_install H p force \<lparr>machine = s, trace = t\<rparr>)) = t @ evs
         \<and> installs p evs \<le> 1"
  unfolding Project_install_def action_defs counting_def
  by (cases "venv_exists H p s")
     (auto simp: installs_def split: prod.splits sum.splits)

text \<open>
  C3. One call of \<^verbatim>\<open>Project.install\<close> calls the environment's \<^verbatim>\<open>install\<close> at most
  once, whatever the environment answers and whatever \<open>force\<close> is: the counter of the
  counting host moves up by at most one, by the number of \<^verbatim>\<open>install\<close> events in the
  trace. In each state the call is this one. When the environment exists and contains
  the project, with \<open>force\<close> the result and the machine are those of the one call of
  \<^verbatim>\<open>install\<close>, made after \<^verbatim>\<open>exists\<close> and \<^verbatim>\<open>contains\<close>; without \<open>force\<close> the
  machine is left as \<^verbatim>\<open>contains\<close> left it and \<^verbatim>\<open>install\<close> is not called. When the
  environment exists and does not contain the project, and when it does not exist and
  is created, \<^verbatim>\<open>install\<close> is called once, with or without \<open>force\<close>.
\<close>

theorem install_called_at_most_once:
  "(venv_exists H p (machine w) = (Inr True, s1) \<and> venv_contains H p s1 = (Inr True, s2) \<longrightarrow>
      Project_install H p True w =
        (fst (venv_install H p s2),
         \<lparr>machine = snd (venv_install H p s2),
          trace = trace w @ [Venv (path p) Exists, Venv (path p) Contains,
                             Info (Updating (name p) (path p)), Venv (path p) Install]\<rparr>)
      \<and> Project_install H p False w =
        (Inr (),
         \<lparr>machine = s2,
          trace = trace w @ [Venv (path p) Exists, Venv (path p) Contains,
                             Info (AlreadyInstalled (name p) (path p))]\<rparr>))
   \<and> (venv_exists H p (machine w) = (Inr True, s1) \<and> venv_contains H p s1 = (Inr False, s2) \<longrightarrow>
      Project_install H p force w =
        (fst (venv_install H p s2),
         \<lparr>machine = snd (venv_install H p s2),
          trace = trace w @ [Venv (path p) Exists, Venv (path p) Contains,
                             Info (Installing (name p) (path p)), Venv (path p) Install]\<rparr>))
   \<and> (venv_exists H p (machine w) = (Inr False, s1) \<and> venv_create H p s1 = (Inr (), s2)
        \<and> venv_contains H p s2 = (Inr False, s3) \<longrightarrow>
      Project_install H p force w =
        (fst (venv_install H p s3),
         \<lparr>machine = snd (venv_install H p s3),
          trace = trace w @ [Venv (path p) Exists, Venv (path p) Create, Venv (path p) Contains,
                             Info (Installing (name p) (path p)), Venv (path p) Install]\<rparr>))
   \<and> (\<exists>evs. Project_install (counting H) p force \<lparr>machine = (machine w, n), trace = trace w\<rparr> =
           (fst (Project_install H p force w),
            \<lparr>machine = (machine (snd (Project_install H p force w)), n + installs p evs),
             trace = trace w @ evs\<rparr>)
         \<and> trace (snd (Project_install H p force w)) = trace w @ evs
         \<and> installs p evs \<le> 1)"
proof (intro conjI impI)
  show "Project_install H p True w =
        (fst (venv_install H p s2),
         \<lparr>machine = snd (venv_install H p s2),
          trace = trace w @ [Venv (path p) Exists, Venv (path p) Contains,
                             Info (Updating (name p) (path p)), Venv (path p) Install]\<rparr>)"
    if "venv_exists H p (machine w) = (Inr True, s1) \<and> venv_contains H p s1 = (Inr True, s2)"
    using that unfolding Project_install_def action_defs by (simp split: prod.splits)
  show "Project_install H p False w =
        (Inr (),
         \<lparr>machine = s2,
          trace = trace w @ [Venv (path p) Exists, Venv (path p) Contains,
                             Info (AlreadyInstalled (name p) (path p))]\<rparr>)"
    if "venv_exists H p (machine w) = (Inr True, s1) \<and> venv_contains H p s1 = (Inr True, s2)"
    using that unfolding Project_install_def action_defs by (simp split: prod.splits)
  show "Project_install H p force w =
        (fst (venv_install H p s2),
         \<lparr>machine = snd (venv_install H p s2),
          trace = trace w @ [Venv (path p) Exists, Venv (path p) Contains,
                             Info (Installing (name p) (path p)), Venv (path p) Install]\<rparr>)"
    if "venv_exists H p (machine w) = (Inr True, s1) \<and> venv_contains H p s1 = (Inr False, s2)"
    using that unfolding Project_install_def action_defs by (simp split: prod.splits)
  show "Project_install H p force w =
        (fst (venv_install H p s3),
         \<lparr>machine = snd (venv_install H p s3),
          trace = trace w @ [Venv (path p) Exists, Venv (path p) Create, Venv (path p) Contains,
                             Info (Installing (name p) (path p)), Venv (path p) Install]\<rparr>)"
    if "venv_exists H p (machine w) = (Inr False, s1) \<and> venv_create H p s1 = (Inr (), s2)
        \<and> venv_contains H p s2 = (Inr False, s3)"
    using that unfolding Project_install_def action_defs by (simp split: prod.splits)
  show "\<exists>evs. Project_install (counting H) p force \<lparr>machine = (machine w, n), trace = trace w\<rparr> =
           (fst (Project_install H p force w),
            \<lparr>machine = (machine (snd (Project_install H p force w)), n + installs p evs),
             trace = trace w @ evs\<rparr>)
         \<and> trace (snd (Project_install H p force w)) = trace w @ evs
         \<and> installs p evs \<le> 1"
  proof -
    obtain m t where w: "w = \<lparr>machine = m, trace = t\<rparr>"
      by (cases w)
    show ?thesis
      using count_installs [of H p force m n t] by (simp add: w)
  qed
qed

lemmas install_defs = Project_install_def action_defs counting_def installs_def world_created_def

theorem install_called_at_most_once_witness:
  "venv_exists spec_host project_a (machine world_a) = (Inr True, machine world_a)
   \<and> venv_contains spec_host project_a (machine world_a) = (Inr True, machine world_a)
   \<and> Project_install spec_host project_a True world_a =
       (Inr (),
        \<lparr>machine = set_venv project_a ExistsInstalled (machine world_a),
         trace = [Venv ''/p/a'' Exists, Venv ''/p/a'' Contains,
                  Info (Updating (TStr ''a'') ''/p/a''), Venv ''/p/a'' Install]\<rparr>)
   \<and> Project_install spec_host project_a False world_a =
       (Inr (),
        \<lparr>machine = machine world_a,
         trace = [Venv ''/p/a'' Exists, Venv ''/p/a'' Contains,
                  Info (AlreadyInstalled (TStr ''a'') ''/p/a'')]\<rparr>)
   \<and> Project_install spec_host project_a False world_created =
       (Inr (),
        \<lparr>machine = set_venv project_a ExistsInstalled (machine world_created),
         trace = [Venv ''/p/a'' Exists, Venv ''/p/a'' Contains,
                  Info (Installing (TStr ''a'') ''/p/a''), Venv ''/p/a'' Install]\<rparr>)
   \<and> Project_install spec_host project_a False world0 =
       (Inr (),
        \<lparr>machine = set_venv project_a ExistsInstalled
                     (set_venv project_a ExistsNotInstalled machine0),
         trace = [Venv ''/p/a'' Exists, Venv ''/p/a'' Create, Venv ''/p/a'' Contains,
                  Info (Installing (TStr ''a'') ''/p/a''), Venv ''/p/a'' Install]\<rparr>)
   \<and> snd (machine (snd (Project_install (counting spec_host) project_a True
        \<lparr>machine = (machine world_a, 0), trace = []\<rparr>))) = 1
   \<and> snd (machine (snd (Project_install (counting spec_host) project_a False
        \<lparr>machine = (machine world_a, 0), trace = []\<rparr>))) = 0
   \<and> snd (machine (snd (Project_install (counting spec_host) project_a False
        \<lparr>machine = (machine0, 0), trace = []\<rparr>))) = 1"
proof -
  have ex: "venv_exists spec_host project_a (machine world_a) = (Inr True, machine world_a)"
    by (simp add: demo_defs)
  have co: "venv_contains spec_host project_a (machine world_a) = (Inr True, machine world_a)"
    by (simp add: demo_defs)
  have ex1: "venv_exists spec_host project_a (machine world_created) =
               (Inr True, machine world_created)"
    by (simp add: demo_defs world_created_def)
  have co1: "venv_contains spec_host project_a (machine world_created) =
               (Inr False, machine world_created)"
    by (simp add: demo_defs world_created_def)
  have ex0: "venv_exists spec_host project_a (machine world0) = (Inr False, machine0)"
    by (simp add: demo_defs)
  have cr0: "venv_create spec_host project_a machine0 =
               (Inr (), set_venv project_a ExistsNotInstalled machine0)"
    by (simp add: demo_defs)
  have co0: "venv_contains spec_host project_a (set_venv project_a ExistsNotInstalled machine0) =
               (Inr False, set_venv project_a ExistsNotInstalled machine0)"
    by (simp add: demo_defs)
  note t = install_called_at_most_once
  have a: "Project_install spec_host project_a True world_a =
       (Inr (),
        \<lparr>machine = set_venv project_a ExistsInstalled (machine world_a),
         trace = [Venv ''/p/a'' Exists, Venv ''/p/a'' Contains,
                  Info (Updating (TStr ''a'') ''/p/a''), Venv ''/p/a'' Install]\<rparr>)
     \<and> Project_install spec_host project_a False world_a =
       (Inr (),
        \<lparr>machine = machine world_a,
         trace = [Venv ''/p/a'' Exists, Venv ''/p/a'' Contains,
                  Info (AlreadyInstalled (TStr ''a'') ''/p/a'')]\<rparr>)"
    using ex co t [of spec_host project_a world_a "machine world_a" "machine world_a"]
    by (simp add: demo_defs)
  have b: "Project_install spec_host project_a False world_created =
       (Inr (),
        \<lparr>machine = set_venv project_a ExistsInstalled (machine world_created),
         trace = [Venv ''/p/a'' Exists, Venv ''/p/a'' Contains,
                  Info (Installing (TStr ''a'') ''/p/a''), Venv ''/p/a'' Install]\<rparr>)"
    using ex1 co1
      t [where H = spec_host and p = project_a and w = world_created and force = False
           and ?s1.0 = "machine world_created" and ?s2.0 = "machine world_created"]
    by (simp add: demo_defs world_created_def)
  have c: "Project_install spec_host project_a False world0 =
       (Inr (),
        \<lparr>machine = set_venv project_a ExistsInstalled
                     (set_venv project_a ExistsNotInstalled machine0),
         trace = [Venv ''/p/a'' Exists, Venv ''/p/a'' Create, Venv ''/p/a'' Contains,
                  Info (Installing (TStr ''a'') ''/p/a''), Venv ''/p/a'' Install]\<rparr>)"
    using ex0 cr0 co0
      t [where H = spec_host and p = project_a and w = world0 and force = False
           and ?s1.0 = machine0 and ?s2.0 = "set_venv project_a ExistsNotInstalled machine0"
           and ?s3.0 = "set_venv project_a ExistsNotInstalled machine0"]
    by (simp add: demo_defs)
  have d: "snd (machine (snd (Project_install (counting spec_host) project_a True
        \<lparr>machine = (machine world_a, 0), trace = []\<rparr>))) = 1
   \<and> snd (machine (snd (Project_install (counting spec_host) project_a False
        \<lparr>machine = (machine world_a, 0), trace = []\<rparr>))) = 0
   \<and> snd (machine (snd (Project_install (counting spec_host) project_a False
        \<lparr>machine = (machine0, 0), trace = []\<rparr>))) = 1"
    by (simp add: install_defs demo_defs)
  show ?thesis
    using ex co a b c d by simp
qed



text \<open>
  In every state of the environment, \<^verbatim>\<open>Project.run\<close> either ends with the call of
  the environment's \<^verbatim>\<open>run\<close> and has its result, or an operation before it raised.
\<close>

lemma then_do_result:
  assumes "\<And>a w1. Q (f a w1)" and "\<And>e w1. Q (Inl e, w1)"
  shows "Q (then_do m f w)"
proof (cases "m w")
  case (Pair r w1)
  then show ?thesis
    by (cases r) (simp_all add: then_do_def assms)
qed

lemma Project_run_result:
  "(\<exists>w1. Project_run H p args w = run_in_venv H p args w1)
   \<or> (\<exists>e w1. Project_run H p args w = (Inl e, w1))"
proof -
  define Q where "Q r \<longleftrightarrow> (\<exists>w1. r = run_in_venv H p args w1) \<or> (\<exists>e w1. r = (Inl e, w1))"
    for r
  have err: "Q (Inl e, w1)" for e w1
    by (auto simp: Q_def)
  have last: "Q (run_in_venv H p args w1)" for w1
    by (auto simp: Q_def)
  have "Q (Project_run H p args w)"
    unfolding Project_run_def
    by (intro then_do_result [where Q = Q] err last)
  then show ?thesis
    by (simp add: Q_def)
qed

section \<open>Properties of running a pipeline\<close>

lemma run_steps_append:
  "run_steps H pl (before @ after) w =
     (case run_steps H pl before w of
        (Inl e, w') \<Rightarrow> (Inl e, w')
      | (Inr u, w') \<Rightarrow> run_steps H pl after w')"
  by (induction before arbitrary: w) (auto split: prod.splits sum.splits)

text \<open>
  C6. \<^verbatim>\<open>run\<close> goes through the steps of the pipeline in the order of the list, one at
  a time: the run of no steps changes nothing, the run of a step and more steps is that
  step and then, from the world it left and only if it raised nothing, the steps after
  it; so a step that succeeds after the steps before it leaves the world of the run. A
  step that parses is resolved, then executed, then logged. When a step raises, by its
  parsing or by its execution, the run ends with that exception in the world that step
  left, whatever steps follow: none of them is parsed, resolved or executed. A step that
  does not parse raises before anything is resolved.
\<close>

theorem run_steps_in_order_fail_fast:
  "(Pipeline_init H given w = (Inr pl, w0) \<and> steps pl = Inr (TList sts) \<longrightarrow>
        run H given w = run_steps H pl sts w0)
   \<and> run_steps H pl [] w0 = (Inr (), w0)
   \<and> run_steps H pl (step # after) w0 =
       (case run_one H pl step w0 of
          (Inl e, w') \<Rightarrow> (Inl e, w')
        | (Inr u, w') \<Rightarrow> run_steps H pl after w')
   \<and> run_steps H pl (before @ after) w0 =
       (case run_steps H pl before w0 of
          (Inl e, w') \<Rightarrow> (Inl e, w')
        | (Inr u, w') \<Rightarrow> run_steps H pl after w')
   \<and> (run_steps H pl before w0 = (Inr (), w1) \<and> run_one H pl step w1 = (Inr (), w2) \<longrightarrow>
        run_steps H pl (before @ [step]) w0 = (Inr (), w2))
   \<and> (run_steps H pl before w0 = (Inr (), w1) \<and> run_one H pl step w1 = (Inl e, w2) \<longrightarrow>
        run_steps H pl (before @ step # after) w0 = (Inl e, w2))
   \<and> (parse_step s = Inl e' \<longrightarrow> run_one H pl (TStr s) w1 = (Inl e', w1))
   \<and> (parse_step s = Inr (component, command, subcommand) \<longrightarrow>
        run_one H pl (TStr s) w1 =
          then_do (create_project H pl component) (\<lambda>project.
          then_do (run_step H pl project command subcommand) (\<lambda>stdout.
            emit (Info (Output stdout)))) w1)"
proof (intro conjI impI)
  show "run_steps H pl (before @ after) w0 =
     (case run_steps H pl before w0 of
        (Inl e, w') \<Rightarrow> (Inl e, w')
      | (Inr u, w') \<Rightarrow> run_steps H pl after w')"
    by (rule run_steps_append)
  show "run_steps H pl (before @ step # after) w0 = (Inl e, w2)"
    if "run_steps H pl before w0 = (Inr (), w1) \<and> run_one H pl step w1 = (Inl e, w2)"
    using that by (simp add: run_steps_append)
  show "run_steps H pl (before @ [step]) w0 = (Inr (), w2)"
    if "run_steps H pl before w0 = (Inr (), w1) \<and> run_one H pl step w1 = (Inr (), w2)"
    using that by (simp add: run_steps_append)
  show "run_one H pl (TStr s) w1 = (Inl e', w1)" if "parse_step s = Inl e'"
    using that by (simp add: run_one_def raise_def)
  show "run_one H pl (TStr s) w1 =
          then_do (create_project H pl component) (\<lambda>project.
          then_do (run_step H pl project command subcommand) (\<lambda>stdout.
            emit (Info (Output stdout)))) w1"
    if "parse_step s = Inr (component, command, subcommand)"
    using that by (simp add: run_one_def)
  show "run H given w = run_steps H pl sts w0"
    if "Pipeline_init H given w = (Inr pl, w0) \<and> steps pl = Inr (TList sts)"
    using that by (simp add: run_def then_do_def and_then_def)
qed simp_all

lemmas demo1_defs = machine1_def world1_def project_b_def after_init_def after_a_def after_b_def

lemmas step_defs = run_one_def parse_step_def create_project_def Project_init_def
  ProjectBase_init_def run_step_def typeo_arg_def typeo_config_def config_def
  Project_run_def Project_install_def and_then_def action_defs Let_def

lemma Pipeline_init_p:
  "Pipeline_init spec_host ''/p'' world0 =
     (Inr pipeline_p, \<lparr>machine = machine0, trace = [Read ''/p/pyproject.toml'']\<rparr>)"
  by (simp add: Pipeline_init_def ProjectBase_init_def steps_def typeo_config_def config_def
      and_then_def action_defs demo_defs Let_def)

lemma steps_p: "steps pipeline_p = Inr (TList [TStr ''a:build'', TStr ''b:test:unit''])"
  by (simp add: steps_def config_def and_then_def demo_defs)

lemma first_step_fails:
  "run_one spec_host pipeline_p (TStr ''a:build'')
     \<lparr>machine = machine0, trace = [Read ''/p/pyproject.toml'']\<rparr> =
   (Inl (EnvironmentExecutionError 1 ''boom''),
    \<lparr>machine = set_venv project_a ExistsInstalled
                 (set_venv project_a ExistsNotInstalled machine0),
     trace = [Read ''/p/pyproject.toml'', Read ''/p/a/pyproject.toml'',
        Venv ''/p/a'' Exists, Venv ''/p/a'' Exists, Venv ''/p/a'' Create,
        Venv ''/p/a'' Contains, Info (Installing (TStr ''a'') ''/p/a''),
        Venv ''/p/a'' Install,
        Venv ''/p/a'' (Run [''build'', ''--typeo'', ''/p''])]\<rparr>)"
  by (simp add: run_one_def parse_step_def create_project_def Project_init_def
      ProjectBase_init_def run_step_def typeo_arg_def typeo_config_def config_def
      Project_run_def Project_install_def and_then_def action_defs demo_defs Let_def)

lemma Pipeline_init_p1:
  "Pipeline_init spec_host ''/p'' world1 = (Inr pipeline_p, after_init)"
  by (simp add: Pipeline_init_def ProjectBase_init_def steps_def typeo_config_def config_def
      and_then_def action_defs demo_defs demo1_defs Let_def)

lemma first_step_succeeds:
  "run_one spec_host pipeline_p (TStr ''a:build'') after_init = (Inr (), after_a)"
  by (simp add: step_defs demo_defs demo1_defs)

lemma second_step_succeeds:
  "run_one spec_host pipeline_p (TStr ''b:test:unit'') after_a = (Inr (), after_b)"
  by (simp add: step_defs demo_defs demo1_defs)

theorem run_steps_in_order_fail_fast_witness:
  "run spec_host ''/p'' world0 =
     (Inl (EnvironmentExecutionError 1 ''boom''),
      \<lparr>machine = set_venv project_a ExistsInstalled
                   (set_venv project_a ExistsNotInstalled machine0),
       trace = [Read ''/p/pyproject.toml'', Read ''/p/a/pyproject.toml'',
          Venv ''/p/a'' Exists, Venv ''/p/a'' Exists, Venv ''/p/a'' Create,
          Venv ''/p/a'' Contains, Info (Installing (TStr ''a'') ''/p/a''),
          Venv ''/p/a'' Install,
          Venv ''/p/a'' (Run [''build'', ''--typeo'', ''/p''])]\<rparr>)
   \<and> run_one spec_host pipeline_p (TStr ''build'')
        \<lparr>machine = machine0, trace = [Read ''/p/pyproject.toml'']\<rparr> =
       (Inl (parse_error ''build''),
        \<lparr>machine = machine0, trace = [Read ''/p/pyproject.toml'']\<rparr>)
   \<and> run spec_host ''/p'' world1 = (Inr (), after_b)
   \<and> trace after_b =
       [Read ''/p/pyproject.toml'',
        Read ''/p/a/pyproject.toml'',
        Venv ''/p/a'' Exists, Venv ''/p/a'' Exists, Venv ''/p/a'' Create,
        Venv ''/p/a'' Contains, Info (Installing (TStr ''a'') ''/p/a''),
        Venv ''/p/a'' Install,
        Venv ''/p/a'' (Run [''build'', ''--typeo'', ''/p'']),
        Info (Output None),
        Read ''/p/b/pyproject.toml'',
        Venv ''/p/b'' Exists, Venv ''/p/b'' Exists, Venv ''/p/b'' Create,
        Venv ''/p/b'' Contains, Info (Installing (TStr ''b'') ''/p/b''),
        Venv ''/p/b'' Install,
        Venv ''/p/b'' (Run [''test'', ''--typeo'', ''/p:unit'']),
        Info (Output None)]"
proof -
  note t = run_steps_in_order_fail_fast
  have p: "parse_step ''build'' = Inl (parse_error ''build'')"
    by (simp add: parse_step_def)
  have failing: "run spec_host ''/p'' world0 =
     (Inl (EnvironmentExecutionError 1 ''boom''),
      \<lparr>machine = set_venv project_a ExistsInstalled
                   (set_venv project_a ExistsNotInstalled machine0),
       trace = [Read ''/p/pyproject.toml'', Read ''/p/a/pyproject.toml'',
          Venv ''/p/a'' Exists, Venv ''/p/a'' Exists, Venv ''/p/a'' Create,
          Venv ''/p/a'' Contains, Info (Installing (TStr ''a'') ''/p/a''),
          Venv ''/p/a'' Install,
          Venv ''/p/a'' (Run [''build'', ''--typeo'', ''/p''])]\<rparr>)
   \<and> run_one spec_host pipeline_p (TStr ''build'')
        \<lparr>machine = machine0, trace = [Read ''/p/pyproject.toml'']\<rparr> =
       (Inl (parse_error ''build''),
        \<lparr>machine = machine0, trace = [Read ''/p/pyproject.toml'']\<rparr>)"
    using Pipeline_init_p steps_p first_step_fails p
      t [where H = spec_host and given = "''/p''" and w = world0 and pl = pipeline_p
           and ?w0.0 = "\<lparr>machine = machine0, trace = [Read ''/p/pyproject.toml'']\<rparr>"
           and sts = "[TStr ''a:build'', TStr ''b:test:unit'']"
           and before = "[]" and after = "[TStr ''b:test:unit'']"
           and ?w1.0 = "\<lparr>machine = machine0, trace = [Read ''/p/pyproject.toml'']\<rparr>"
           and step = "TStr ''a:build''"
           and e = "EnvironmentExecutionError 1 ''boom''"
           and ?w2.0 = "\<lparr>machine = set_venv project_a ExistsInstalled
                                     (set_venv project_a ExistsNotInstalled machine0),
               trace = [Read ''/p/pyproject.toml'', Read ''/p/a/pyproject.toml'',
                 Venv ''/p/a'' Exists, Venv ''/p/a'' Exists, Venv ''/p/a'' Create,
                 Venv ''/p/a'' Contains, Info (Installing (TStr ''a'') ''/p/a''),
                 Venv ''/p/a'' Install,
                 Venv ''/p/a'' (Run [''build'', ''--typeo'', ''/p''])]\<rparr>"
           and s = "''build''" and e' = "parse_error ''build''"]
    by simp
  have one: "run_steps spec_host pipeline_p [TStr ''a:build''] after_init = (Inr (), after_a)"
    using first_step_succeeds by simp
  have q: "parse_step ''b:test:unit'' = Inr (''b'', ''test'', Some ''unit'')"
    by (simp add: parse_step_def)
  have succeeding: "run spec_host ''/p'' world1 = (Inr (), after_b)"
    using Pipeline_init_p1 steps_p one second_step_succeeds q
      t [where H = spec_host and given = "''/p''" and w = world1 and pl = pipeline_p
           and ?w0.0 = after_init
           and sts = "[TStr ''a:build'', TStr ''b:test:unit'']"
           and before = "[TStr ''a:build'']" and after = "[]"
           and ?w1.0 = after_a and step = "TStr ''b:test:unit''" and ?w2.0 = after_b
           and s = "''b:test:unit''" and component = "''b''" and command = "''test''"
           and subcommand = "Some ''unit''"]
    by simp
  have order: "trace after_b =
       [Read ''/p/pyproject.toml'',
        Read ''/p/a/pyproject.toml'',
        Venv ''/p/a'' Exists, Venv ''/p/a'' Exists, Venv ''/p/a'' Create,
        Venv ''/p/a'' Contains, Info (Installing (TStr ''a'') ''/p/a''),
        Venv ''/p/a'' Install,
        Venv ''/p/a'' (Run [''build'', ''--typeo'', ''/p'']),
        Info (Output None),
        Read ''/p/b/pyproject.toml'',
        Venv ''/p/b'' Exists, Venv ''/p/b'' Exists, Venv ''/p/b'' Create,
        Venv ''/p/b'' Contains, Info (Installing (TStr ''b'') ''/p/b''),
        Venv ''/p/b'' Install,
        Venv ''/p/b'' (Run [''test'', ''--typeo'', ''/p:unit'']),
        Info (Output None)]"
    by (simp add: after_b_def after_a_def)
  show ?thesis
    using failing succeeding order by simp
qed

section \<open>Properties of construction and of the configuration\<close>

lemma missing_key_getpath:
  "missing_key v ks = Some k \<Longrightarrow> getpath v ks = Inl (KeyError k)"
proof (induction ks arbitrary: v)
  case Nil
  then show ?case by simp
next
  case (Cons a ks)
  then show ?case
    by (cases v) (auto simp: and_then_def split: option.splits)
qed

lemma getpath_missing_key:
  "getpath v ks = Inl (KeyError k) \<Longrightarrow> missing_key v ks = Some k"
proof (induction ks arbitrary: v)
  case Nil
  then show ?case by simp
next
  case (Cons a ks)
  then show ?case
    by (cases v) (auto simp: and_then_def split: option.splits)
qed

lemma ProjectBase_init_found:
  "read_toml H (joinpath H (abspath H given) ''pyproject.toml'') (machine w) = Some c \<Longrightarrow>
   ProjectBase_init H cls given w =
     (Inr \<lparr>path = abspath H given, cfg = c\<rparr>,
      w\<lparr>trace := trace w @ [Read (joinpath H (abspath H given) ''pyproject.toml'')]\<rparr>)"
  by (simp add: ProjectBase_init_def Let_def action_defs)

lemma ProjectBase_init_not_found:
  "read_toml H (joinpath H (abspath H given) ''pyproject.toml'') (machine w) = None \<Longrightarrow>
   fst (ProjectBase_init H cls given w) =
     Inl (no_descriptor cls (abspath H given) (joinpath H (abspath H given) ''pyproject.toml''))"
  by (simp add: ProjectBase_init_def Let_def action_defs)

lemma read_spec_host:
  "read_toml spec_host (joinpath spec_host (abspath spec_host given) ''pyproject.toml'') s =
     map_of (descriptors s) (given @ ''/pyproject.toml'')"
  by (simp add: spec_host_def)

lemma getitem_error:
  "getitem v k = Inl e \<Longrightarrow> e = TypeError \<or> e = KeyError k"
  by (cases v) (auto split: option.splits)

lemma getpath_error:
  "getpath v ks = Inl e \<Longrightarrow> e = TypeError \<or> (\<exists>k. e = KeyError k \<and> missing_key v ks = Some k)"
proof (induction ks arbitrary: v)
  case Nil
  then show ?case by simp
next
  case (Cons a ks)
  then show ?case
    by (cases v) (auto simp: and_then_def split: option.splits)
qed

lemmas odd_defs = config_s_def config_t_def config_u_def config_v_def project_t_def
  world_odd_def

text \<open>
  C7, as amended. For a descriptor that exists: when a table on the path \<^verbatim>\<open>tool\<close>,
  \<^verbatim>\<open>pinto\<close>, \<^verbatim>\<open>steps\<close> lacks its key, the construction of a \<^verbatim>\<open>Pipeline\<close> raises
  the \<^verbatim>\<open>ValueError\<close> that names \<^verbatim>\<open>[tool.pinto]\<close> and \<^verbatim>\<open>steps\<close>; when the steps
  are found and a table on the path \<^verbatim>\<open>tool\<close>, \<^verbatim>\<open>typeo\<close> lacks its key, it raises
  the one that names \<^verbatim>\<open>[tool.typeo]\<close>; when a value on the way to the steps is not a
  table, the \<^verbatim>\<open>TypeError\<close> of the lookup leaves the constructor; and it succeeds, with
  the path and the configuration read, exactly when both lookups find a value, of
  whatever type.
\<close>

theorem Pipeline_init_missing_tables:
  assumes "read_toml H (joinpath H (abspath H given) ''pyproject.toml'') (machine w) = Some c"
  shows "(missing_key (TTable c) [''tool'', ''pinto'', ''steps''] \<noteq> None \<longrightarrow>
            fst (Pipeline_init H given w) =
              Inl (no_steps (joinpath H (abspath H given) ''pyproject.toml'')))
       \<and> (getpath (TTable c) [''tool'', ''pinto'', ''steps''] = Inr v
            \<and> missing_key (TTable c) [''tool'', ''typeo''] \<noteq> None \<longrightarrow>
            fst (Pipeline_init H given w) =
              Inl (no_typeo (joinpath H (abspath H given) ''pyproject.toml'')))
       \<and> (getpath (TTable c) [''tool'', ''pinto'', ''steps''] = Inl TypeError \<longrightarrow>
            fst (Pipeline_init H given w) = Inl TypeError)
       \<and> (getpath (TTable c) [''tool'', ''pinto'', ''steps''] = Inr v
            \<and> getpath (TTable c) [''tool'', ''typeo''] = Inr ty \<longrightarrow>
            fst (Pipeline_init H given w) = Inr \<lparr>path = abspath H given, cfg = c\<rparr>)
       \<and> ((\<exists>pl. fst (Pipeline_init H given w) = Inr pl) \<longleftrightarrow>
            (\<exists>st ty. getpath (TTable c) [''tool'', ''pinto'', ''steps''] = Inr st
                   \<and> getpath (TTable c) [''tool'', ''typeo''] = Inr ty))"
proof (intro conjI impI)
  note init = ProjectBase_init_found [OF assms, of "''Pipeline''"]
  note defs = Pipeline_init_def then_do_def init steps_def typeo_config_def config_def
          raise_def ret_def Let_def
  show "fst (Pipeline_init H given w) =
          Inl (no_steps (joinpath H (abspath H given) ''pyproject.toml''))"
    if "missing_key (TTable c) [''tool'', ''pinto'', ''steps''] \<noteq> None"
  proof -
    from that obtain k where "missing_key (TTable c) [''tool'', ''pinto'', ''steps''] = Some k"
      by blast
    then have "getpath (TTable c) [''tool'', ''pinto'', ''steps''] = Inl (KeyError k)"
      by (rule missing_key_getpath)
    then show ?thesis
      by (simp add: defs)
  qed
  show "fst (Pipeline_init H given w) =
          Inl (no_typeo (joinpath H (abspath H given) ''pyproject.toml''))"
    if "getpath (TTable c) [''tool'', ''pinto'', ''steps''] = Inr v
        \<and> missing_key (TTable c) [''tool'', ''typeo''] \<noteq> None"
  proof -
    from that obtain k where "missing_key (TTable c) [''tool'', ''typeo''] = Some k"
      by blast
    then have "getpath (TTable c) [''tool'', ''typeo''] = Inl (KeyError k)"
      by (rule missing_key_getpath)
    with that show ?thesis
      by (simp add: defs)
  qed
  show "fst (Pipeline_init H given w) = Inl TypeError"
    if "getpath (TTable c) [''tool'', ''pinto'', ''steps''] = Inl TypeError"
    using that by (simp add: defs)
  show "fst (Pipeline_init H given w) = Inr \<lparr>path = abspath H given, cfg = c\<rparr>"
    if "getpath (TTable c) [''tool'', ''pinto'', ''steps''] = Inr v
        \<and> getpath (TTable c) [''tool'', ''typeo''] = Inr ty"
    using that by (simp add: defs)
  show "(\<exists>pl. fst (Pipeline_init H given w) = Inr pl) \<longleftrightarrow>
            (\<exists>st ty. getpath (TTable c) [''tool'', ''pinto'', ''steps''] = Inr st
                   \<and> getpath (TTable c) [''tool'', ''typeo''] = Inr ty)"
    by (cases "getpath (TTable c) [''tool'', ''pinto'', ''steps'']";
        cases "getpath (TTable c) [''tool'', ''typeo'']")
       (auto simp: defs split: error.splits)
qed

theorem Pipeline_init_missing_tables_witness:
  "missing_key (TTable config_r) [''tool'', ''pinto'', ''steps''] = Some ''steps''
   \<and> fst (Pipeline_init spec_host ''/r'' world0) = Inl (no_steps ''/r/pyproject.toml'')
   \<and> getpath (TTable config_q) [''tool'', ''pinto'', ''steps''] = Inr (TList [])
   \<and> missing_key (TTable config_q) [''tool'', ''typeo''] = Some ''typeo''
   \<and> fst (Pipeline_init spec_host ''/q'' world0) = Inl (no_typeo ''/q/pyproject.toml'')
   \<and> getpath (TTable config_s) [''tool'', ''pinto'', ''steps''] = Inl TypeError
   \<and> fst (Pipeline_init spec_host ''/s'' world_odd) = Inl TypeError
   \<and> fst (Pipeline_init spec_host ''/p'' world0) = Inr \<lparr>path = ''/p'', cfg = config_p\<rparr>"
proof -
  have r: "read_toml spec_host (joinpath spec_host (abspath spec_host ''/r'') ''pyproject.toml'')
             (machine world0) = Some config_r"
    by (simp add: read_spec_host) (simp add: world0_def machine0_def)
  have q: "read_toml spec_host (joinpath spec_host (abspath spec_host ''/q'') ''pyproject.toml'')
             (machine world0) = Some config_q"
    by (simp add: read_spec_host) (simp add: world0_def machine0_def)
  have p: "read_toml spec_host (joinpath spec_host (abspath spec_host ''/p'') ''pyproject.toml'')
             (machine world0) = Some config_p"
    by (simp add: read_spec_host) (simp add: world0_def machine0_def)
  have s: "read_toml spec_host (joinpath spec_host (abspath spec_host ''/s'') ''pyproject.toml'')
             (machine world_odd) = Some config_s"
    by (simp add: read_spec_host) (simp add: world_odd_def)
  have j: "joinpath spec_host (abspath spec_host given) ''pyproject.toml'' =
             given @ ''/pyproject.toml''" for given
    by (simp add: spec_host_def)
  have a: "abspath spec_host given = given" for given
    by (simp add: spec_host_def)
  have j': "joinpath spec_host given ''pyproject.toml'' = given @ ''/pyproject.toml''" for given
    by (simp add: spec_host_def)
  have mr: "missing_key (TTable config_r) [''tool'', ''pinto'', ''steps''] = Some ''steps''"
    by (simp add: config_r_def)
  have gq: "getpath (TTable config_q) [''tool'', ''pinto'', ''steps''] = Inr (TList [])"
    by (simp add: config_q_def and_then_def)
  have mq: "missing_key (TTable config_q) [''tool'', ''typeo''] = Some ''typeo''"
    by (simp add: config_q_def)
  have gs: "getpath (TTable config_s) [''tool'', ''pinto'', ''steps''] = Inl TypeError"
    by (simp add: config_s_def and_then_def)
  have gp: "getpath (TTable config_p) [''tool'', ''pinto'', ''steps''] =
              Inr (TList [TStr ''a:build'', TStr ''b:test:unit''])"
    by (simp add: config_p_def and_then_def)
  have tp: "getpath (TTable config_p) [''tool'', ''typeo''] =
              Inr (TTable [(''scripts'', TTable [(''train'', TTable [])])])"
    by (simp add: config_p_def and_then_def)
  show ?thesis
    using mr gq mq gs gp tp
      Pipeline_init_missing_tables [OF r]
      Pipeline_init_missing_tables [OF q, where v = "TList []"]
      Pipeline_init_missing_tables [OF s]
      Pipeline_init_missing_tables [OF p,
        where v = "TList [TStr ''a:build'', TStr ''b:test:unit'']"
          and ty = "TTable [(''scripts'', TTable [(''train'', TTable [])])]"]
    by (simp add: j' a)
qed

text \<open>
  C7, as stated, fails. In the descriptor at \<^verbatim>\<open>/s\<close> there is no steps list, and the
  construction raises a \<^verbatim>\<open>TypeError\<close>, which names no table. In the one at
  \<^verbatim>\<open>/v\<close> there is neither a list of steps nor a scripts table, and the construction
  succeeds.
\<close>

theorem Pipeline_init_scalar_on_path:
  "read_toml spec_host (joinpath spec_host (abspath spec_host ''/s'') ''pyproject.toml'')
     (machine world_odd) = Some [(''tool'', TTable [(''pinto'', TStr ''x'')])]
   \<and> fst (Pipeline_init spec_host ''/s'' world_odd) = Inl TypeError
   \<and> read_toml spec_host (joinpath spec_host (abspath spec_host ''/v'') ''pyproject.toml'')
     (machine world_odd) =
       Some [(''tool'', TTable [(''pinto'', TTable [(''steps'', TInt 5)]), (''typeo'', TStr ''x'')])]
   \<and> fst (Pipeline_init spec_host ''/v'' world_odd) =
       Inr \<lparr>path = ''/v'', cfg = config_v\<rparr>"
  by (simp add: Pipeline_init_def ProjectBase_init_def steps_def typeo_config_def config_def
      and_then_def action_defs odd_defs spec_host_def Let_def)

text \<open>
  C10, as amended. For a descriptor that exists and from which the name cannot be read,
  the construction of a \<^verbatim>\<open>Project\<close> raises what the lookup of \<^verbatim>\<open>tool\<close>,
  \<^verbatim>\<open>poetry\<close>, \<^verbatim>\<open>name\<close> raised: the \<^verbatim>\<open>KeyError\<close> of the key that a table on the
  path lacks, or a \<^verbatim>\<open>TypeError\<close> when a value on the path is not a table. In no case
  does it raise one of the \<^verbatim>\<open>ValueError\<close>s that report a missing descriptor or a
  missing table; and when the name is found it succeeds with it.
\<close>

theorem Project_init_without_name:
  assumes "read_toml H (joinpath H (abspath H given) ''pyproject.toml'') (machine w) = Some c"
  shows "(missing_key (TTable c) [''tool'', ''poetry'', ''name''] = Some k \<longrightarrow>
            fst (Project_init H given w) = Inl (KeyError k))
       \<and> (getpath (TTable c) [''tool'', ''poetry'', ''name''] = Inl e \<longrightarrow>
            fst (Project_init H given w) = Inl e
            \<and> (e = TypeError \<or> (\<exists>k'. e = KeyError k'
                 \<and> missing_key (TTable c) [''tool'', ''poetry'', ''name''] = Some k')))
       \<and> (getpath (TTable c) [''tool'', ''poetry'', ''name''] = Inr n \<longrightarrow>
            fst (Project_init H given w) = Inr \<lparr>path = abspath H given, cfg = c, name = n\<rparr>)
       \<and> (\<forall>m. fst (Project_init H given w) \<noteq> Inl (ValueError m))"
proof (intro conjI impI allI)
  note defs = Project_init_def then_do_def ProjectBase_init_found [OF assms] raise_def ret_def
  show "fst (Project_init H given w) = Inl (KeyError k)"
    if "missing_key (TTable c) [''tool'', ''poetry'', ''name''] = Some k"
    using missing_key_getpath [OF that] by (simp add: defs)
  show "fst (Project_init H given w) = Inl e"
    if "getpath (TTable c) [''tool'', ''poetry'', ''name''] = Inl e"
    using that by (simp add: defs)
  show "e = TypeError \<or> (\<exists>k'. e = KeyError k'
                 \<and> missing_key (TTable c) [''tool'', ''poetry'', ''name''] = Some k')"
    if "getpath (TTable c) [''tool'', ''poetry'', ''name''] = Inl e"
    using that by (rule getpath_error)
  show "fst (Project_init H given w) = Inr \<lparr>path = abspath H given, cfg = c, name = n\<rparr>"
    if "getpath (TTable c) [''tool'', ''poetry'', ''name''] = Inr n"
    using that by (simp add: defs)
  show "fst (Project_init H given w) \<noteq> Inl (ValueError m)" for m
  proof (cases "getpath (TTable c) [''tool'', ''poetry'', ''name'']")
    case (Inl e)
    with getpath_error [OF Inl] show ?thesis by (auto simp: defs)
  next
    case (Inr n)
    then show ?thesis by (simp add: defs)
  qed
qed

theorem Project_init_without_name_witness:
  "read_toml spec_host (joinpath spec_host (abspath spec_host ''/r'') ''pyproject.toml'')
     (machine world0) = Some config_r
   \<and> missing_key (TTable config_r) [''tool'', ''poetry'', ''name''] = Some ''poetry''
   \<and> fst (Project_init spec_host ''/r'' world0) = Inl (KeyError ''poetry'')
   \<and> getpath (TTable config_u) [''tool'', ''poetry'', ''name''] = Inl TypeError
   \<and> fst (Project_init spec_host ''/u'' world_odd) = Inl TypeError
   \<and> getpath (TTable config_a) [''tool'', ''poetry'', ''name''] = Inr (TStr ''a'')
   \<and> fst (Project_init spec_host ''/p/a'' world0) = Inr project_a"
proof -
  have r: "read_toml spec_host (joinpath spec_host (abspath spec_host ''/r'') ''pyproject.toml'')
             (machine world0) = Some config_r"
    by (simp add: read_spec_host) (simp add: world0_def machine0_def)
  have u: "read_toml spec_host (joinpath spec_host (abspath spec_host ''/u'') ''pyproject.toml'')
             (machine world_odd) = Some config_u"
    by (simp add: read_spec_host) (simp add: world_odd_def)
  have a: "read_toml spec_host (joinpath spec_host (abspath spec_host ''/p/a'') ''pyproject.toml'')
             (machine world0) = Some config_a"
    by (simp add: read_spec_host) (simp add: world0_def machine0_def)
  have m: "missing_key (TTable config_r) [''tool'', ''poetry'', ''name''] = Some ''poetry''"
    by (simp add: config_r_def)
  have gu: "getpath (TTable config_u) [''tool'', ''poetry'', ''name''] = Inl TypeError"
    by (simp add: config_u_def and_then_def)
  have ga: "getpath (TTable config_a) [''tool'', ''poetry'', ''name''] = Inr (TStr ''a'')"
    by (simp add: config_a_def and_then_def)
  have ab: "abspath spec_host given = given" for given
    by (simp add: spec_host_def)
  show ?thesis
    using r m gu ga
      Project_init_without_name [OF r, where k = "''poetry''"]
      Project_init_without_name [OF u, where e = TypeError]
      Project_init_without_name [OF a, where n = "TStr ''a''"]
    by (simp add: ab project_a_def)
qed

text \<open>
  C10, as stated, fails. The descriptor at \<^verbatim>\<open>/u\<close> has no name, since its
  \<^verbatim>\<open>poetry\<close> is a string, and the construction raises a \<^verbatim>\<open>TypeError\<close>, not a
  \<^verbatim>\<open>KeyError\<close>.
\<close>

theorem Project_init_scalar_on_path:
  "read_toml spec_host (joinpath spec_host (abspath spec_host ''/u'') ''pyproject.toml'')
     (machine world_odd) = Some [(''tool'', TTable [(''poetry'', TStr ''x'')])]
   \<and> fst (Project_init spec_host ''/u'' world_odd) = Inl TypeError"
  by (simp add: Project_init_def ProjectBase_init_def and_then_def action_defs odd_defs
      spec_host_def Let_def)

lemma Project_init_tool_table:
  assumes "Project_init H given w = (Inr p, w')"
  shows "\<exists>t. map_of (cfg p) ''tool'' = Some (TTable t)"
proof -
  obtain r w1 where b: "ProjectBase_init H ''Project'' given w = (r, w1)"
    by (cases "ProjectBase_init H ''Project'' given w")
  with assms obtain b0 where r: "r = Inr b0"
    by (cases r) (auto simp: Project_init_def then_do_def)
  from assms b r obtain n where g: "getpath (TTable (cfg b0)) [''tool'', ''poetry'', ''name''] = Inr n"
    and p: "cfg p = cfg b0"
    by (cases "getpath (TTable (cfg b0)) [''tool'', ''poetry'', ''name'']")
       (auto simp: Project_init_def then_do_def raise_def ret_def)
  from g obtain v where v: "map_of (cfg b0) ''tool'' = Some v" and "getitem v ''poetry'' \<noteq> Inl TypeError"
    by (auto simp: and_then_def split: option.splits sum.splits)
  then obtain t where "v = TTable t" by (cases v) auto
  with v p show ?thesis by simp
qed

text \<open>
  C9, as amended. The \<^verbatim>\<open>tool\<close> entry of a project that was constructed is a table.
  When that table has no \<^verbatim>\<open>pinto\<close> key, \<^verbatim>\<open>pinto_config\<close> returns the empty
  dictionary; when it has one, \<^verbatim>\<open>pinto_config\<close> is the copy of its value, which a
  table and an array have and which raises \<^verbatim>\<open>AttributeError\<close> on a scalar. For any
  project, a missing path \<^verbatim>\<open>tool\<close>, \<^verbatim>\<open>pinto\<close> gives the empty dictionary, and
  \<^verbatim>\<open>pinto_config\<close> never raises a \<^verbatim>\<open>KeyError\<close>.
\<close>

theorem pinto_config_without_table:
  "(Project_init H given w = (Inr p, w') \<longrightarrow>
      (\<exists>t. map_of (cfg p) ''tool'' = Some (TTable t)
         \<and> pinto_config p =
             (case map_of t ''pinto'' of None \<Rightarrow> Inr (TTable []) | Some v \<Rightarrow> copy_value v)))
   \<and> (missing_key (TTable (cfg p)) [''tool'', ''pinto''] \<noteq> None \<longrightarrow>
      pinto_config p = Inr (TTable []))
   \<and> pinto_config p \<noteq> Inl (KeyError k)"
proof (intro conjI impI)
  show "\<exists>t. map_of (cfg p) ''tool'' = Some (TTable t)
         \<and> pinto_config p =
             (case map_of t ''pinto'' of None \<Rightarrow> Inr (TTable []) | Some v \<Rightarrow> copy_value v)"
    if "Project_init H given w = (Inr p, w')"
  proof -
    from Project_init_tool_table [OF that] obtain t
      where t: "map_of (cfg p) ''tool'' = Some (TTable t)" by blast
    have "pinto_config p =
             (case map_of t ''pinto'' of None \<Rightarrow> Inr (TTable []) | Some v \<Rightarrow> copy_value v)"
    proof (cases "map_of t ''pinto''")
      case None
      with t show ?thesis by (simp add: pinto_config_def config_def and_then_def)
    next
      case (Some v)
      with t show ?thesis
        by (cases v) (simp_all add: pinto_config_def config_def and_then_def)
    qed
    with t show ?thesis by blast
  qed
  show "pinto_config p = Inr (TTable [])"
    if "missing_key (TTable (cfg p)) [''tool'', ''pinto''] \<noteq> None"
  proof -
    from that obtain k' where "missing_key (TTable (cfg p)) [''tool'', ''pinto''] = Some k'"
      by blast
    then have "getpath (TTable (cfg p)) [''tool'', ''pinto''] = Inl (KeyError k')"
      by (rule missing_key_getpath)
    then show ?thesis
      by (simp add: pinto_config_def config_def and_then_def)
  qed
  show "pinto_config p \<noteq> Inl (KeyError k)"
    by (simp add: pinto_config_def split: sum.splits error.splits)
qed

theorem pinto_config_without_table_witness:
  "Project_init spec_host ''/p/a'' world0 =
     (Inr project_a, \<lparr>machine = machine0, trace = [Read ''/p/a/pyproject.toml'']\<rparr>)
   \<and> missing_key (TTable (cfg project_a)) [''tool'', ''pinto''] = Some ''pinto''
   \<and> pinto_config project_a = Inr (TTable [])
   \<and> Project_init spec_host ''/t'' world_odd =
     (Inr project_t, \<lparr>machine = machine world_odd, trace = [Read ''/t/pyproject.toml'']\<rparr>)
   \<and> pinto_config project_t = copy_value (TStr ''x'')"
proof -
  have a: "read_toml spec_host (joinpath spec_host (abspath spec_host ''/p/a'') ''pyproject.toml'')
             (machine world0) = Some config_a"
    by (simp add: read_spec_host) (simp add: world0_def machine0_def)
  have i: "Project_init spec_host ''/p/a'' world0 =
     (Inr project_a, \<lparr>machine = machine0, trace = [Read ''/p/a/pyproject.toml'']\<rparr>)"
    by (simp add: Project_init_def then_do_def ProjectBase_init_found [OF a])
       (simp add: config_a_def project_a_def and_then_def ret_def spec_host_def world0_def)
  have t: "read_toml spec_host (joinpath spec_host (abspath spec_host ''/t'') ''pyproject.toml'')
             (machine world_odd) = Some config_t"
    by (simp add: read_spec_host) (simp add: world_odd_def)
  have it: "Project_init spec_host ''/t'' world_odd =
     (Inr project_t, \<lparr>machine = machine world_odd, trace = [Read ''/t/pyproject.toml'']\<rparr>)"
    by (simp add: Project_init_def then_do_def ProjectBase_init_found [OF t])
       (simp add: config_t_def project_t_def and_then_def ret_def spec_host_def world_odd_def)
  have m: "missing_key (TTable (cfg project_a)) [''tool'', ''pinto''] = Some ''pinto''"
    by (simp add: project_a_def config_a_def)
  have ca: "cfg project_a = [(''tool'', TTable [(''poetry'', TTable [(''name'', TStr ''a'')])])]"
    by (simp add: project_a_def config_a_def)
  have ct: "cfg project_t =
     [(''tool'', TTable [(''poetry'', TTable [(''name'', TStr ''t'')]), (''pinto'', TStr ''x'')])]"
    by (simp add: project_t_def config_t_def)
  show ?thesis
    using i it m
      pinto_config_without_table [where H = spec_host and given = "''/p/a''" and w = world0
        and p = project_a
        and w' = "\<lparr>machine = machine0, trace = [Read ''/p/a/pyproject.toml'']\<rparr>"]
      pinto_config_without_table [where H = spec_host and given = "''/t''" and w = world_odd
        and p = project_t
        and w' = "\<lparr>machine = machine world_odd, trace = [Read ''/t/pyproject.toml'']\<rparr>"]
    by (auto simp: ca ct)
qed

text \<open>
  C9, as stated, fails. The project at \<^verbatim>\<open>/t\<close> is constructed, its \<^verbatim>\<open>pinto\<close> is a
  string and so it has no \<^verbatim>\<open>pinto\<close> table, and reading its \<^verbatim>\<open>pinto_config\<close>
  raises \<^verbatim>\<open>AttributeError\<close>.
\<close>

theorem pinto_config_scalar:
  "fst (Project_init spec_host ''/t'' world_odd) = Inr project_t
   \<and> cfg project_t =
       [(''tool'', TTable [(''poetry'', TTable [(''name'', TStr ''t'')]), (''pinto'', TStr ''x'')])]
   \<and> pinto_config project_t = Inl AttributeError"
  by (simp add: Project_init_def ProjectBase_init_def pinto_config_def config_def and_then_def
      action_defs odd_defs spec_host_def Let_def)

section \<open>Properties of a step\<close>

lemmas cfg_defs = typeo_arg_def typeo_config_def steps_def config_def and_then_def

text \<open>
  The argument for a pipeline whose \<^verbatim>\<open>[tool.typeo]\<close> is a table: without a
  \<^verbatim>\<open>scripts\<close> entry, with a scripts table that holds the command, and with one that
  does not.
\<close>

lemma typeo_arg_no_scripts:
  assumes "typeo_config pl = Inr (TTable t)"
    and "map_of t ''scripts'' = None"
  shows "typeo_arg pl command (Some sub) = Inr (path pl @ ''::'' @ sub)"
    and "typeo_arg pl command None = Inr (path pl)"
  using assms by (simp_all add: typeo_arg_def and_then_def)

lemma typeo_arg_registered:
  assumes "typeo_config pl = Inr (TTable t)"
    and "map_of t ''scripts'' = Some (TTable scripts)"
    and "command \<in> set (map fst scripts)"
  shows "typeo_arg pl command (Some sub) = Inr (path pl @ '':'' @ command @ '':'' @ sub)"
    and "typeo_arg pl command None = Inr (path pl @ '':'' @ command)"
  using assms by (simp_all add: typeo_arg_def and_then_def)

lemma typeo_arg_unregistered:
  assumes "typeo_config pl = Inr (TTable t)"
    and "map_of t ''scripts'' = Some (TTable scripts)"
    and "command \<notin> set (map fst scripts)"
  shows "typeo_arg pl command (Some sub) = Inr (path pl @ '':'' @ sub)"
    and "typeo_arg pl command None = Inr (path pl)"
  using assms by (simp_all add: typeo_arg_def and_then_def)

lemma typeo_arg_shapes:
  "typeo_arg pipeline_p ''train'' (Some ''fast'') = Inr ''/p:train:fast''
   \<and> typeo_arg pipeline_p ''train'' None = Inr ''/p:train''
   \<and> typeo_arg pipeline_p ''lint'' None = Inr ''/p''"
  by (simp add: cfg_defs demo_defs)

text \<open>
  C1. With the scripts table \<^verbatim>\<open>{train}\<close>, the command \<^verbatim>\<open>lint\<close>, which is not
  registered, and the subcommand \<^verbatim>\<open>strict\<close>, the argument built and given to
  \<^verbatim>\<open>project.run\<close> is \<^verbatim>\<open>/p:strict\<close>, with one colon; the two colons of
  \<^verbatim>\<open>/p::strict\<close> are built only when there is no scripts table at all.
\<close>

theorem typeo_arg_unregistered_with_subcommand:
  "typeo_arg pipeline_p ''lint'' (Some ''strict'') = Inr ''/p:strict''
   \<and> typeo_arg pipeline_without_scripts ''lint'' (Some ''strict'') = Inr ''/p::strict''
   \<and> trace (snd (run_step spec_host pipeline_p project_a ''lint'' (Some ''strict'') world_a)) =
       [Venv ''/p/a'' Exists, Venv ''/p/a'' Contains,
        Venv ''/p/a'' (Run [''lint'', ''--typeo'', ''/p:strict''])]"
  by (simp add: run_step_def Project_run_def cfg_defs action_defs demo_defs)

lemma run_step_never_returns_output:
  "fst (run_step H pl project command subcommand w) \<noteq> Inr (Some out)"
  by (simp add: run_step_def raise_def then_do_def ret_def split: sum.splits prod.splits)

text \<open>
  C2. Where \<^verbatim>\<open>project.run\<close> returns the captured output \<^verbatim>\<open>passed\<close> for the command,
  the flag and the argument that \<^verbatim>\<open>run_step\<close> gives it, \<^verbatim>\<open>run_step\<close> itself returns
  \<^verbatim>\<open>None\<close>.
\<close>

theorem run_step_returns_None:
  "fst (Project_run spec_host project_a [''test'', ''--typeo'', ''/p:unit''] world_a) = Inr ''passed''
   \<and> typeo_arg pipeline_p ''test'' (Some ''unit'') = Inr ''/p:unit''
   \<and> fst (run_step spec_host pipeline_p project_a ''test'' (Some ''unit'') world_a) = Inr None"
  by (simp add: run_step_def Project_run_def cfg_defs action_defs demo_defs)

section \<open>Properties of the copy of the configuration\<close>

text \<open>
  C8, as amended. A read of \<^verbatim>\<open>config\<close> makes a new dictionary with the entries of
  \<^verbatim>\<open>_config\<close> and changes no object that existed; assigning to a key of the returned
  dictionary, or deleting one, changes only the new dictionary: every object that
  existed before the read, \<^verbatim>\<open>_config\<close> and the tables below it among them, is as it
  was.
\<close>

theorem config_copy_top_level:
  assumes "c < length h"
  shows "config_at c h = (Inr (length h), h @ [h ! c])
         \<and> take (length h) (snd (assign_in_config c [] k v h)) = h
         \<and> take (length h) (snd (delete_in_config c [] k h)) = h"
  using assms
  by (auto simp: config_at_def copy_at_def allocate_def assign_in_config_def
      delete_in_config_def setitem_at_def delitem_at_def nth_append
      split: pyobj.splits)

theorem config_copy_top_level_witness:
  "(0::nat) < length store0
   \<and> config_at 0 store0 = (Inr 3, store0 @ [Dict [(''tool'', VRef 1)]])
   \<and> snd (assign_in_config 0 [] ''tool'' (VInt 0) store0) = store0 @ [Dict [(''tool'', VInt 0)]]
   \<and> snd (delete_in_config 0 [] ''tool'' store0) = store0 @ [Dict []]
   \<and> take 3 (snd (assign_in_config 0 [] ''tool'' (VInt 0) store0)) = store0
   \<and> take 3 (snd (delete_in_config 0 [] ''tool'' store0)) = store0"
proof -
  have h: "(0::nat) < length store0" by (simp add: store0_def)
  have l: "length store0 = 3" by (simp add: store0_def)
  show ?thesis
    using h config_copy_top_level [OF h, of "''tool''" "VInt 0"]
    by (simp add: l)
       (simp add: store0_def config_at_def copy_at_def allocate_def assign_in_config_def
          delete_in_config_def setitem_at_def delitem_at_def)
qed

text \<open>
  C8, as stated, fails: the returned dictionary holds the reference to the \<^verbatim>\<open>tool\<close>
  table that \<^verbatim>\<open>_config\<close> holds, so the caller's
  \<^verbatim>\<open>project.config["tool"]["poetry"]["name"] = "b"\<close> changes what
  \<^verbatim>\<open>_config["tool"]["poetry"]["name"]\<close> is.
\<close>

theorem config_copy_shares_nested:
  "getpath_at store0 (VRef 0) [''tool'', ''poetry'', ''name''] = Inr (VStr ''a'')
   \<and> fst (assign_in_config 0 [''tool'', ''poetry''] ''name'' (VStr ''b'') store0) = Inr ()
   \<and> getpath_at (snd (assign_in_config 0 [''tool'', ''poetry''] ''name'' (VStr ''b'') store0))
        (VRef 0) [''tool'', ''poetry'', ''name''] = Inr (VStr ''b'')
   \<and> take 3 (snd (assign_in_config 0 [''tool'', ''poetry''] ''name'' (VStr ''b'') store0))
        \<noteq> store0"
  by (simp add: store0_def config_at_def copy_at_def allocate_def assign_in_config_def
      setitem_at_def getitem_at_def and_then_def)

end
